theory Spec2Isabelle
  imports Complex_Main "HOL-Library.Sublist"
begin

section \<open>Python values, exceptions and effects\<close>

text \<open>
  A Python \<open>str\<close> is modelled by its UTF-8 encoding, a \<open>string\<close> of bytes. The sources
  only compare strings for equality, concatenate them (f-strings, \<open>+\<close>) and encode them,
  and UTF-8 is injective and compatible with concatenation, so nothing is lost.
\<close>

text \<open>
  What \<open>json.loads\<close> returns and \<open>json.dumps\<close> takes. \<open>JFloat r\<close> is a finite float,
  by its value; \<open>JNonFinite\<close> stands for \<open>nan\<close> and the infinities, which \<open>json.loads\<close>
  accepts and which equal no integer.
\<close>

datatype json =
    JNull
  | JBool bool
  | JInt int
  | JFloat rat
  | JNonFinite
  | JStr string
  | JArr "json list"
  | JObj "(string \<times> json) list"

text \<open>
  The exception classes that the sources name in an \<open>except\<close> clause or raise, those the
  interpreter raises on a failed subscript, and \<open>OtherException name\<close> for every class
  unrelated to them. \<open>exn_str\<close> is \<open>str(e)\<close>. The cause that \<open>raise ... from e\<close> attaches
  is not kept: nothing in the sources reads it.
\<close>

datatype exn_class =
    KeyError | IndexError | TypeError | ValueError | RuntimeError
  | BotoCoreError | ClientError | NoCredentialsError | PartialCredentialsError
  | ParamValidationError | EndpointConnectionError
  | RequestException | BadSignatureError
  | OtherException string

datatype exn = Exn (exn_class: exn_class) (exn_str: string)

definition issubclass :: "exn_class \<Rightarrow> exn_class \<Rightarrow> bool" where
  \<comment> \<open>botocore derives the four credential, validation and endpoint errors from BotoCoreError\<close>
  "issubclass c d =
     (c = d \<or> (d = BotoCoreError \<and>
        (c = NoCredentialsError \<or> c = PartialCredentialsError \<or>
         c = ParamValidationError \<or> c = EndpointConnectionError)))"

definition caught_by :: "exn \<Rightarrow> exn_class list \<Rightarrow> bool" where
  "caught_by e cs = list_ex (issubclass (exn_class e)) cs"

text \<open>
  The calls that leave the process and the lines printed, in the order they are made:
  the two arguments of \<open>KmsDecrypt\<close> are \<open>CiphertextBlob\<close> and the \<open>LambdaFunctionName\<close> of
  the encryption context, those of \<open>LambdaInvoke\<close> are \<open>FunctionName\<close> and
  \<open>InvocationType\<close>, those of \<open>RequestsPost\<close> the URL and the \<open>json=\<close> payload, and
  \<open>TimeSleep\<close> carries the argument of \<open>time.sleep\<close>.
\<close>

datatype event =
    KmsDecrypt string string
  | Ec2StopInstances "string list"
  | Ec2StartInstances "string list"
  | Ec2DescribeInstances "string list"
  | TimeSleep nat
  | RequestsPost string json
  | LambdaInvoke string string
  | Print string

text \<open>
  The part of one entry of a DescribeInstances response that the workers read:
  \<open>["State"]["Name"]\<close> and \<open>.get("PublicIpAddress")\<close> (\<open>None\<close> when the key is absent).
  A response is \<open>["Reservations"]\<close>, a list of reservations, each with its \<open>["Instances"]\<close>.
\<close>

record instance_description =
  state_name :: string
  public_ip_address :: "string option"

type_synonym describe_response = "instance_description list list"

text \<open>
  Everything outside the sources: the process environment, and the library and service
  calls, each a function to its result or the exception it raises. \<open>kms_decrypt\<close> takes
  \<open>CiphertextBlob\<close> and the \<open>LambdaFunctionName\<close> of the encryption context and yields
  \<open>["Plaintext"].decode("utf-8")\<close>; \<open>describe_instances n\<close> is the answer to the read
  that follows \<open>n\<close> earlier reads; \<open>verify key message signature\<close> is
  \<open>VerifyKey(key).verify(message, signature=signature)\<close>.
\<close>

record world =
  environ :: "string \<rightharpoonup> string"
  boto3_client :: "string \<Rightarrow> exn option"
  b64decode :: "string \<Rightarrow> exn + string"
  kms_decrypt :: "string \<Rightarrow> string \<Rightarrow> exn + string"
  stop_instances :: "string list \<Rightarrow> exn option"
  start_instances :: "string list \<Rightarrow> exn option"
  describe_instances :: "nat \<Rightarrow> string list \<Rightarrow> exn + describe_response"
  requests_post :: "string \<Rightarrow> json \<Rightarrow> exn option"
  lambda_invoke :: "string \<Rightarrow> string \<Rightarrow> exn option"
  json_loads :: "string \<Rightarrow> exn + json"
  bytes_fromhex :: "string \<Rightarrow> exn + string"
  VerifyKey :: "string \<Rightarrow> exn option"
  verify :: "string \<Rightarrow> string \<Rightarrow> string \<Rightarrow> exn option"

text \<open>
  A computation takes the calls made so far and returns them extended, with the value
  returned or the exception raised.
\<close>

type_synonym 'a io = "event list \<Rightarrow> event list \<times> (exn + 'a)"

definition io_return :: "'a \<Rightarrow> 'a io" where
  "io_return x = (\<lambda>t. (t, Inr x))"

definition io_raise :: "exn \<Rightarrow> 'a io" where
  "io_raise e = (\<lambda>t. (t, Inl e))"

definition io_bind :: "'a io \<Rightarrow> ('a \<Rightarrow> 'b io) \<Rightarrow> 'b io" where
  "io_bind m f = (\<lambda>t. case m t of (t', Inl e) \<Rightarrow> (t', Inl e) | (t', Inr x) \<Rightarrow> f x t')"

definition io_except :: "'a io \<Rightarrow> exn_class list \<Rightarrow> (exn \<Rightarrow> 'a io) \<Rightarrow> 'a io" where
  \<comment> \<open>\<open>try: m except (cs) as e: h e\<close>\<close>
  "io_except m cs h =
     (\<lambda>t. case m t of
            (t', Inl e) \<Rightarrow> if caught_by e cs then h e t' else (t', Inl e)
          | (t', Inr x) \<Rightarrow> (t', Inr x))"

definition io_lift :: "exn + 'a \<Rightarrow> 'a io" where
  "io_lift r = (\<lambda>t. (t, r))"

definition io_check :: "exn option \<Rightarrow> unit io" where
  "io_check r = (\<lambda>t. (t, case r of None \<Rightarrow> Inr () | Some e \<Rightarrow> Inl e))"

definition io_call :: "event \<Rightarrow> 'a io \<Rightarrow> 'a io" where
  \<comment> \<open>a call that leaves the process is recorded, then answered\<close>
  "io_call ev m = (\<lambda>t. m (t @ [ev]))"

definition repr_key :: "string \<Rightarrow> string" where
  \<comment> \<open>\<open>repr\<close> of a key made of plain letters, digits, \<open>_\<close> and \<open>-\<close>, as all keys here are\<close>
  "repr_key k = [CHR 0x27] @ k @ [CHR 0x27]"

definition os_environ :: "world \<Rightarrow> string \<Rightarrow> string io" where
  \<comment> \<open>\<open>os.environ[k]\<close>\<close>
  "os_environ w k =
     (case environ w k of
        None \<Rightarrow> io_raise (Exn KeyError (repr_key k))
      | Some v \<Rightarrow> io_return v)"

definition kms_client_decrypt :: "world \<Rightarrow> string \<Rightarrow> string io" where
  \<comment> \<open>\<open>kms_client.decrypt(CiphertextBlob=b64decode(x), EncryptionContext={"LambdaFunctionName":
      os.environ["AWS_LAMBDA_FUNCTION_NAME"]})["Plaintext"].decode("utf-8")\<close>: the arguments
      are evaluated left to right, then the call is made\<close>
  "kms_client_decrypt w x =
     io_bind (io_lift (b64decode w x)) (\<lambda>blob.
     io_bind (os_environ w ''AWS_LAMBDA_FUNCTION_NAME'') (\<lambda>name.
     io_call (KmsDecrypt blob name) (io_lift (kms_decrypt w blob name))))"

section \<open>The texts of the messages\<close>

definition txt_env_var :: string where
  \<comment> \<open>kankyou hensuu: environment variable (stop 45, check 44); code points U+74B0 U+5883 U+5909 U+6570\<close>
  "txt_env_var =
    [CHR 0xE7, CHR 0x92, CHR 0xB0, CHR 0xE5, CHR 0xA2, CHR 0x83, CHR 0xE5, CHR 0xA4, CHR 0x89,
     CHR 0xE6, CHR 0x95, CHR 0xB0]"

definition txt_not_found :: string where
  \<comment> \<open>ga mitsukarimasen: is not found (stop 45, check 44); code points U+304C U+898B U+3064 U+304B U+308A U+307E U+305B U+3093\<close>
  "txt_not_found =
    [CHR 0xE3, CHR 0x81, CHR 0x8C, CHR 0xE8, CHR 0xA6, CHR 0x8B, CHR 0xE3, CHR 0x81, CHR 0xA4,
     CHR 0xE3, CHR 0x81, CHR 0x8B, CHR 0xE3, CHR 0x82, CHR 0x8A, CHR 0xE3, CHR 0x81, CHR 0xBE,
     CHR 0xE3, CHR 0x81, CHR 0x9B, CHR 0xE3, CHR 0x82, CHR 0x93]"

definition txt_decrypt_error :: string where
  \<comment> \<open>fukugou eraa: decryption error (stop 63, check 62, webhook 86); code points U+5FA9 U+53F7 U+30A8 U+30E9 U+30FC\<close>
  "txt_decrypt_error =
    [CHR 0xE5, CHR 0xBE, CHR 0xA9, CHR 0xE5, CHR 0x8F, CHR 0xB7, CHR 0xE3, CHR 0x82, CHR 0xA8,
     CHR 0xE3, CHR 0x83, CHR 0xA9, CHR 0xE3, CHR 0x83, CHR 0xBC]"

definition txt_operation_error :: string where
  \<comment> \<open>sousa eraa: operation error (stop 86, check 97); code points U+64CD U+4F5C U+30A8 U+30E9 U+30FC\<close>
  "txt_operation_error =
    [CHR 0xE6, CHR 0x93, CHR 0x8D, CHR 0xE4, CHR 0xBD, CHR 0x9C, CHR 0xE3, CHR 0x82, CHR 0xA8,
     CHR 0xE3, CHR 0x83, CHR 0xA9, CHR 0xE3, CHR 0x83, CHR 0xBC]"

definition txt_send_error :: string where
  \<comment> \<open>soushin eraa: sending error (stop 96, check 103); code points U+9001 U+4FE1 U+30A8 U+30E9 U+30FC\<close>
  "txt_send_error =
    [CHR 0xE9, CHR 0x80, CHR 0x81, CHR 0xE4, CHR 0xBF, CHR 0xA1, CHR 0xE3, CHR 0x82, CHR 0xA8,
     CHR 0xE3, CHR 0x83, CHR 0xA9, CHR 0xE3, CHR 0x83, CHR 0xBC]"

definition txt_instance_open :: string where
  \<comment> \<open>insutansu: instance, then the opening bracket U+3010 (stop 91, check 74, 80, 86); code points U+30A4 U+30F3 U+30B9 U+30BF U+30F3 U+30B9 U+3010\<close>
  "txt_instance_open =
    [CHR 0xE3, CHR 0x82, CHR 0xA4, CHR 0xE3, CHR 0x83, CHR 0xB3, CHR 0xE3, CHR 0x82, CHR 0xB9,
     CHR 0xE3, CHR 0x82, CHR 0xBF, CHR 0xE3, CHR 0x83, CHR 0xB3, CHR 0xE3, CHR 0x82, CHR 0xB9,
     CHR 0xE3, CHR 0x80, CHR 0x90]"

definition txt_has_stopped :: string where
  \<comment> \<open>closing bracket U+3011, ga teishi shimashita: has stopped (stop 91); code points U+3011 U+304C U+505C U+6B62 U+3057 U+307E U+3057 U+305F\<close>
  "txt_has_stopped =
    [CHR 0xE3, CHR 0x80, CHR 0x91, CHR 0xE3, CHR 0x81, CHR 0x8C, CHR 0xE5, CHR 0x81, CHR 0x9C,
     CHR 0xE6, CHR 0xAD, CHR 0xA2, CHR 0xE3, CHR 0x81, CHR 0x97, CHR 0xE3, CHR 0x81, CHR 0xBE,
     CHR 0xE3, CHR 0x81, CHR 0x97, CHR 0xE3, CHR 0x81, CHR 0x9F]"

definition txt_is_running :: string where
  \<comment> \<open>closing bracket, wa kidouzumi desu: is already running (check 74); code points U+3011 U+306F U+8D77 U+52D5 U+6E08 U+307F U+3067 U+3059\<close>
  "txt_is_running =
    [CHR 0xE3, CHR 0x80, CHR 0x91, CHR 0xE3, CHR 0x81, CHR 0xAF, CHR 0xE8, CHR 0xB5, CHR 0xB7,
     CHR 0xE5, CHR 0x8B, CHR 0x95, CHR 0xE6, CHR 0xB8, CHR 0x88, CHR 0xE3, CHR 0x81, CHR 0xBF,
     CHR 0xE3, CHR 0x81, CHR 0xA7, CHR 0xE3, CHR 0x81, CHR 0x99]"

definition txt_is_stopped :: string where
  \<comment> \<open>closing bracket, wa teishi shiteimasu: is stopped (check 80); code points U+3011 U+306F U+505C U+6B62 U+3057 U+3066 U+3044 U+307E U+3059\<close>
  "txt_is_stopped =
    [CHR 0xE3, CHR 0x80, CHR 0x91, CHR 0xE3, CHR 0x81, CHR 0xAF, CHR 0xE5, CHR 0x81, CHR 0x9C,
     CHR 0xE6, CHR 0xAD, CHR 0xA2, CHR 0xE3, CHR 0x81, CHR 0x97, CHR 0xE3, CHR 0x81, CHR 0xA6,
     CHR 0xE3, CHR 0x81, CHR 0x84, CHR 0xE3, CHR 0x81, CHR 0xBE, CHR 0xE3, CHR 0x81, CHR 0x99]"

definition txt_status_is :: string where
  \<comment> \<open>closing bracket, no suteetasu wa: its status is (check 86); code points U+3011 U+306E U+30B9 U+30C6 U+30FC U+30BF U+30B9 U+306F\<close>
  "txt_status_is =
    [CHR 0xE3, CHR 0x80, CHR 0x91, CHR 0xE3, CHR 0x81, CHR 0xAE, CHR 0xE3, CHR 0x82, CHR 0xB9,
     CHR 0xE3, CHR 0x83, CHR 0x86, CHR 0xE3, CHR 0x83, CHR 0xBC, CHR 0xE3, CHR 0x82, CHR 0xBF,
     CHR 0xE3, CHR 0x82, CHR 0xB9, CHR 0xE3, CHR 0x81, CHR 0xAF]"

definition txt_desu :: string where
  \<comment> \<open>desu: the copula that ends the sentence (check 86); code points U+3067 U+3059\<close>
  "txt_desu =
    [CHR 0xE3, CHR 0x81, CHR 0xA7, CHR 0xE3, CHR 0x81, CHR 0x99]"

definition msg_starting :: string where
  \<comment> \<open>saabaa wo kidou shiteimasu: starting the server (webhook 109); code points U+30B5 U+30FC U+30D0 U+30FC U+3092 U+8D77 U+52D5 U+3057 U+3066 U+3044 U+307E U+3059 U+30FB U+30FB U+30FB\<close>
  "msg_starting =
    [CHR 0xE3, CHR 0x82, CHR 0xB5, CHR 0xE3, CHR 0x83, CHR 0xBC, CHR 0xE3, CHR 0x83, CHR 0x90,
     CHR 0xE3, CHR 0x83, CHR 0xBC, CHR 0xE3, CHR 0x82, CHR 0x92, CHR 0xE8, CHR 0xB5, CHR 0xB7,
     CHR 0xE5, CHR 0x8B, CHR 0x95, CHR 0xE3, CHR 0x81, CHR 0x97, CHR 0xE3, CHR 0x81, CHR 0xA6,
     CHR 0xE3, CHR 0x81, CHR 0x84, CHR 0xE3, CHR 0x81, CHR 0xBE, CHR 0xE3, CHR 0x81, CHR 0x99,
     CHR 0xE3, CHR 0x83, CHR 0xBB, CHR 0xE3, CHR 0x83, CHR 0xBB, CHR 0xE3, CHR 0x83, CHR 0xBB]"

definition msg_stopping :: string where
  \<comment> \<open>saabaa wo teishi shiteimasu: stopping the server (webhook 112); code points U+30B5 U+30FC U+30D0 U+30FC U+3092 U+505C U+6B62 U+3057 U+3066 U+3044 U+307E U+3059 U+30FB U+30FB U+30FB\<close>
  "msg_stopping =
    [CHR 0xE3, CHR 0x82, CHR 0xB5, CHR 0xE3, CHR 0x83, CHR 0xBC, CHR 0xE3, CHR 0x83, CHR 0x90,
     CHR 0xE3, CHR 0x83, CHR 0xBC, CHR 0xE3, CHR 0x82, CHR 0x92, CHR 0xE5, CHR 0x81, CHR 0x9C,
     CHR 0xE6, CHR 0xAD, CHR 0xA2, CHR 0xE3, CHR 0x81, CHR 0x97, CHR 0xE3, CHR 0x81, CHR 0xA6,
     CHR 0xE3, CHR 0x81, CHR 0x84, CHR 0xE3, CHR 0x81, CHR 0xBE, CHR 0xE3, CHR 0x81, CHR 0x99,
     CHR 0xE3, CHR 0x83, CHR 0xBB, CHR 0xE3, CHR 0x83, CHR 0xBB, CHR 0xE3, CHR 0x83, CHR 0xBB]"

definition msg_fetching :: string where
  \<comment> \<open>saabaa suteetasu wo shutoku shiteimasu: fetching the server status (webhook 115); code points U+30B5 U+30FC U+30D0 U+30FC U+30B9 U+30C6 U+30FC U+30BF U+30B9 U+3092 U+53D6 U+5F97 U+3057 U+3066 U+3044 U+307E U+3059 U+30FB U+30FB U+30FB\<close>
  "msg_fetching =
    [CHR 0xE3, CHR 0x82, CHR 0xB5, CHR 0xE3, CHR 0x83, CHR 0xBC, CHR 0xE3, CHR 0x83, CHR 0x90,
     CHR 0xE3, CHR 0x83, CHR 0xBC, CHR 0xE3, CHR 0x82, CHR 0xB9, CHR 0xE3, CHR 0x83, CHR 0x86,
     CHR 0xE3, CHR 0x83, CHR 0xBC, CHR 0xE3, CHR 0x82, CHR 0xBF, CHR 0xE3, CHR 0x82, CHR 0xB9,
     CHR 0xE3, CHR 0x82, CHR 0x92, CHR 0xE5, CHR 0x8F, CHR 0x96, CHR 0xE5, CHR 0xBE, CHR 0x97,
     CHR 0xE3, CHR 0x81, CHR 0x97, CHR 0xE3, CHR 0x81, CHR 0xA6, CHR 0xE3, CHR 0x81, CHR 0x84,
     CHR 0xE3, CHR 0x81, CHR 0xBE, CHR 0xE3, CHR 0x81, CHR 0x99, CHR 0xE3, CHR 0x83, CHR 0xBB,
     CHR 0xE3, CHR 0x83, CHR 0xBB, CHR 0xE3, CHR 0x83, CHR 0xBB]"

section \<open>The lifecycle workers\<close>

subsection \<open>The preamble shared by the workers\<close>

text \<open>
  Lines 40 to 45 of \<open>discord_stop_instance.py\<close> and 39 to 44 of
  \<open>discord_check_instance.py\<close>, which are the same text: both variables are read from
  the environment, and a \<open>KeyError\<close> becomes a \<open>ValueError\<close>.
\<close>

definition missing_variable :: "string \<Rightarrow> exn" where
  \<comment> \<open>\<open>ValueError\<close> with the f-string of line 45 (44) for \<open>KeyError(k)\<close>, whose \<open>str\<close> is
      \<open>repr(k)\<close>\<close>
  "missing_variable k =
     Exn ValueError (txt_env_var @ '' '' @ repr_key k @ '' '' @ txt_not_found)"

definition read_environment :: "world \<Rightarrow> (string \<times> string) io" where
  "read_environment w =
     io_except
       (io_bind (os_environ w ''INSTANCE_ID'') (\<lambda>instance_id_encrypted.
        io_bind (os_environ w ''DISCORD_WEBHOOK_URL'') (\<lambda>discord_webhook_url_encrypted.
        io_return (instance_id_encrypted, discord_webhook_url_encrypted))))
       [KeyError]
       (\<lambda>e. io_raise (Exn ValueError
          (txt_env_var @ '' '' @ exn_str e @ '' '' @ txt_not_found)))"

text \<open>
  Lines 47 to 63 of \<open>discord_stop_instance.py\<close> and 46 to 62 of
  \<open>discord_check_instance.py\<close>: the KMS client is made, the instance identifier is
  decrypted, then the webhook URL.
\<close>

definition decrypt_configuration :: "world \<Rightarrow> string \<times> string \<Rightarrow> (string \<times> string) io" where
  "decrypt_configuration w enc =
     io_except
       (io_bind (io_check (boto3_client w ''kms'')) (\<lambda>kms_client.
        io_bind (kms_client_decrypt w (fst enc)) (\<lambda>instance_id.
        io_bind (kms_client_decrypt w (snd enc)) (\<lambda>discord_webhook_url.
        io_return (instance_id, discord_webhook_url)))))
       [BotoCoreError, ClientError]
       (\<lambda>e. io_raise (Exn RuntimeError (''KMS'' @ txt_decrypt_error @ '': '' @ exn_str e)))"

definition preamble :: "world \<Rightarrow> (string \<times> string) io" where
  \<comment> \<open>the two blocks in sequence: the plain instance identifier and webhook URL\<close>
  "preamble w = io_bind (read_environment w) (decrypt_configuration w)"

definition ec2_errors :: "exn_class list" where
  \<comment> \<open>the tuple of the \<open>except\<close> clause around the EC2 calls\<close>
  "ec2_errors =
     [BotoCoreError, ClientError, NoCredentialsError, PartialCredentialsError,
      ParamValidationError, EndpointConnectionError]"

definition ec2_error :: "exn \<Rightarrow> exn" where
  "ec2_error e = Exn RuntimeError (''EC2'' @ txt_operation_error @ '': '' @ exn_str e)"

definition webhook_error :: "exn \<Rightarrow> exn" where
  "webhook_error e =
     Exn RuntimeError (''Discord Webhook'' @ txt_send_error @ '': '' @ exn_str e)"

definition post_webhook :: "world \<Rightarrow> string \<Rightarrow> json \<Rightarrow> unit io" where
  \<comment> \<open>\<open>try: requests.post(discord_webhook_url, json=data)
      except requests.RequestException as e: raise RuntimeError(...)\<close>\<close>
  "post_webhook w discord_webhook_url data =
     io_except
       (io_call (RequestsPost discord_webhook_url data)
          (io_check (requests_post w discord_webhook_url data)))
       [RequestException]
       (\<lambda>e. io_raise (webhook_error e))"

definition is_describe :: "event \<Rightarrow> bool" where
  "is_describe ev = (case ev of Ec2DescribeInstances _ \<Rightarrow> True | _ \<Rightarrow> False)"

definition ec2_describe_instances :: "world \<Rightarrow> string list \<Rightarrow> describe_response io" where
  \<comment> \<open>\<open>ec2.describe_instances(InstanceIds=ids)\<close>\<close>
  "ec2_describe_instances w ids =
     (\<lambda>t. (t @ [Ec2DescribeInstances ids],
            describe_instances w (length (filter is_describe t)) ids))"

definition first_instance :: "describe_response \<Rightarrow> exn + instance_description" where
  \<comment> \<open>\<open>instance["Reservations"][0]["Instances"][0]\<close>\<close>
  "first_instance r =
     (case r of
        [] \<Rightarrow> Inl (Exn IndexError ''list index out of range'')
      | instances # _ \<Rightarrow>
          (case instances of
             [] \<Rightarrow> Inl (Exn IndexError ''list index out of range'')
           | i # _ \<Rightarrow> Inr i))"

subsection \<open>The Stop worker: discord_stop_instance.py\<close>

text \<open>
  The loop of lines 72 to 78, with the value of \<open>instance_running\<close> as an argument. It
  need not end, so the result is an option: \<open>None\<close> is a loop that runs forever.
\<close>

partial_function (option) poll_loop ::
  "world \<Rightarrow> string \<Rightarrow> bool \<Rightarrow> event list \<Rightarrow> (event list \<times> (exn + unit)) option" where
  "poll_loop w instance_id instance_running t =
     (if instance_running then
        (case ec2_describe_instances w [instance_id] t of
           (t1, Inl e) \<Rightarrow> Some (t1, Inl e)
         | (t1, Inr instance) \<Rightarrow>
             (case first_instance instance of
                Inl e \<Rightarrow> Some (t1, Inl e)
              | Inr i \<Rightarrow>
                  if state_name i = ''stopped''
                  then poll_loop w instance_id False t1
                  else poll_loop w instance_id True (t1 @ [TimeSleep 5])))
      else Some (t, Inr ()))"

definition stop_ec2 :: "world \<Rightarrow> string \<Rightarrow> event list \<Rightarrow> (event list \<times> (exn + unit)) option" where
  \<comment> \<open>lines 65 to 86: the client, the stop, \<open>instance_running = False\<close>, the loop, and the
      \<open>except\<close> clause around them\<close>
  "stop_ec2 w instance_id t =
     (case io_bind (io_check (boto3_client w ''ec2'')) (\<lambda>ec2.
             io_call (Ec2StopInstances [instance_id])
               (io_check (stop_instances w [instance_id]))) t of
        (t1, Inl e) \<Rightarrow> Some (t1, Inl (if caught_by e ec2_errors then ec2_error e else e))
      | (t1, Inr _) \<Rightarrow>
          (case poll_loop w instance_id False t1 of
             None \<Rightarrow> None
           | Some (t2, Inl e) \<Rightarrow>
               Some (t2, Inl (if caught_by e ec2_errors then ec2_error e else e))
           | Some (t2, Inr u) \<Rightarrow> Some (t2, Inr u)))"

definition stop_data :: "string \<Rightarrow> json" where
  \<comment> \<open>lines 90 to 93\<close>
  "stop_data instance_id =
     JObj [(''content'', JStr (txt_instance_open @ instance_id @ txt_has_stopped)),
           (''flags'', JInt 4096)]"

definition stop_lambda_handler :: "world \<Rightarrow> (event list \<times> (exn + string)) option" where
  "stop_lambda_handler w =
     (case preamble w [] of
        (t, Inl e) \<Rightarrow> Some (t, Inl e)
      | (t, Inr (instance_id, discord_webhook_url)) \<Rightarrow>
          (case stop_ec2 w instance_id t of
             None \<Rightarrow> None
           | Some (t1, Inl e) \<Rightarrow> Some (t1, Inl e)
           | Some (t1, Inr _) \<Rightarrow>
               Some (io_bind (post_webhook w discord_webhook_url (stop_data instance_id))
                       (\<lambda>_. io_return ''-'') t1)))"

subsection \<open>The Status worker: discord_check_instance.py\<close>

definition str_opt :: "string option \<Rightarrow> string" where
  \<comment> \<open>an f-string field of a value that is a \<open>str\<close> or \<open>None\<close>\<close>
  "str_opt v = (case v of None \<Rightarrow> ''None'' | Some s \<Rightarrow> s)"

definition check_data :: "string \<Rightarrow> instance_description \<Rightarrow> json \<times> string" where
  \<comment> \<open>lines 70 to 89: \<open>data\<close> and \<open>res\<close> from the state that was read\<close>
  "check_data instance_id i =
     (let state = state_name i in
      if state = ''running'' then
        (let public_ip = public_ip_address i in
         (JObj [(''content'', JStr (txt_instance_open @ instance_id @ txt_is_running
                                     @ [CHR 0x0D] @ str_opt public_ip)),
                (''flags'', JInt 4096)],
          state @ '' '' @ str_opt public_ip))
      else if state = ''stopped'' then
        (JObj [(''content'', JStr (txt_instance_open @ instance_id @ txt_is_stopped)),
               (''flags'', JInt 4096)],
         state)
      else
        (JObj [(''content'', JStr (txt_instance_open @ instance_id @ txt_status_is
                                    @ state @ txt_desu)),
               (''flags'', JInt 4096)],
         state))"

definition check_ec2 :: "world \<Rightarrow> string \<Rightarrow> (json \<times> string) io" where
  \<comment> \<open>lines 64 to 97\<close>
  "check_ec2 w instance_id =
     io_except
       (io_bind (io_check (boto3_client w ''ec2'')) (\<lambda>ec2.
        io_bind (ec2_describe_instances w [instance_id]) (\<lambda>instance.
        io_bind (io_lift (first_instance instance)) (\<lambda>i.
        io_return (check_data instance_id i)))))
       ec2_errors
       (\<lambda>e. io_raise (ec2_error e))"

definition check_lambda_handler :: "world \<Rightarrow> event list \<times> (exn + string)" where
  "check_lambda_handler w =
     io_bind (preamble w) (\<lambda>(instance_id, discord_webhook_url).
     io_bind (check_ec2 w instance_id) (\<lambda>(data, res).
     io_bind (post_webhook w discord_webhook_url data) (\<lambda>_.
     io_return res))) []"

subsection \<open>The Start worker\<close>

text \<open>
  Modelled from the spec: the source of the Start worker (the function that the gateway
  invokes as \<open>discord-start-instance\<close>) is not among the sources. The spec gives it the
  preamble shared by all three workers and "the same shape as Stop, mirrored: trigger the
  start operation once, then notify that start was initiated", with no wait for the
  running state; a notification is one POST of \<open>{content, flags}\<close>. The spec gives neither
  the text of the notification nor the value of its flags, "an opaque flag value passed
  through": they are the parameters \<open>started_text\<close>, applied to the instance identifier,
  and \<open>start_flags\<close>.
\<close>

definition start_data :: "(string \<Rightarrow> string) \<Rightarrow> int \<Rightarrow> string \<Rightarrow> json" where
  \<comment> \<open>Modelled from the spec: the payload of the Start worker's notification, whose source
      is not among the sources\<close>
  "start_data started_text start_flags instance_id =
     JObj [(''content'', JStr (started_text instance_id)), (''flags'', JInt start_flags)]"

definition start_lambda_handler ::
  "(string \<Rightarrow> string) \<Rightarrow> int \<Rightarrow> world \<Rightarrow> event list \<times> (exn + unit)" where
  \<comment> \<open>Modelled from the spec: the handler of the Start worker, whose source is not among
      the sources\<close>
  "start_lambda_handler started_text start_flags w =
     io_bind (preamble w) (\<lambda>(instance_id, discord_webhook_url).
     io_bind (io_except
                (io_bind (io_check (boto3_client w ''ec2'')) (\<lambda>ec2.
                 io_call (Ec2StartInstances [instance_id])
                   (io_check (start_instances w [instance_id]))))
                ec2_errors
                (\<lambda>e. io_raise (ec2_error e))) (\<lambda>_.
     post_webhook w discord_webhook_url
       (start_data started_text start_flags instance_id))) []"

section \<open>The gateway: discord_webhook_app.py\<close>

subsection \<open>Subscripts and comparisons on parsed JSON\<close>

definition not_subscriptable :: "string \<Rightarrow> exn" where
  "not_subscriptable ty =
     Exn TypeError ([CHR 0x27] @ ty @ [CHR 0x27] @ '' object is not subscriptable'')"

definition getitem :: "json \<Rightarrow> string \<Rightarrow> exn + json" where
  \<comment> \<open>\<open>v[k]\<close> for a \<open>str\<close> key; a \<open>JObj\<close> is the \<open>dict\<close> that \<open>json.loads\<close> built, its
      keys distinct\<close>
  "getitem v k =
     (case v of
        JObj kvs \<Rightarrow>
          (case map_of kvs k of
             None \<Rightarrow> Inl (Exn KeyError (repr_key k))
           | Some x \<Rightarrow> Inr x)
      | JArr _ \<Rightarrow> Inl (Exn TypeError ''list indices must be integers or slices, not str'')
      | JStr _ \<Rightarrow>
          Inl (Exn TypeError (''string indices must be integers, not '' @ repr_key ''str''))
      | JNull \<Rightarrow> Inl (not_subscriptable ''NoneType'')
      | JBool _ \<Rightarrow> Inl (not_subscriptable ''bool'')
      | JInt _ \<Rightarrow> Inl (not_subscriptable ''int'')
      | JFloat _ \<Rightarrow> Inl (not_subscriptable ''float'')
      | JNonFinite \<Rightarrow> Inl (not_subscriptable ''float''))"

definition first_char :: "string \<Rightarrow> string" where
  \<comment> \<open>the first code point of a non-empty text, by the length its leading byte announces\<close>
  "first_char s =
     take (let b = (of_char (hd s) :: nat)
           in if b < 0x80 then 1 else if b < 0xE0 then 2 else if b < 0xF0 then 3 else 4) s"

definition getitem0 :: "json \<Rightarrow> exn + json" where
  \<comment> \<open>\<open>v[0]\<close>; a \<open>dict\<close> from \<open>json.loads\<close> has no key \<open>0\<close>\<close>
  "getitem0 v =
     (case v of
        JArr xs \<Rightarrow>
          (case xs of
             [] \<Rightarrow> Inl (Exn IndexError ''list index out of range'')
           | x # _ \<Rightarrow> Inr x)
      | JObj _ \<Rightarrow> Inl (Exn KeyError ''0'')
      | JStr s \<Rightarrow>
          (if s = [] then Inl (Exn IndexError ''string index out of range'')
           else Inr (JStr (first_char s)))
      | JNull \<Rightarrow> Inl (not_subscriptable ''NoneType'')
      | JBool _ \<Rightarrow> Inl (not_subscriptable ''bool'')
      | JInt _ \<Rightarrow> Inl (not_subscriptable ''int'')
      | JFloat _ \<Rightarrow> Inl (not_subscriptable ''float'')
      | JNonFinite \<Rightarrow> Inl (not_subscriptable ''float''))"

definition eq_int :: "json \<Rightarrow> int \<Rightarrow> bool" where
  \<comment> \<open>\<open>v == k\<close> for an \<open>int\<close> \<open>k\<close>: Python equates \<open>True\<close> with 1, \<open>False\<close> with 0 and a
      float with the integer of the same value\<close>
  "eq_int v k =
     (case v of
        JInt n \<Rightarrow> n = k
      | JBool b \<Rightarrow> (if b then 1 else 0) = k
      | JFloat r \<Rightarrow> r = of_int k
      | _ \<Rightarrow> False)"

definition eq_str :: "json \<Rightarrow> string \<Rightarrow> bool" where
  \<comment> \<open>\<open>v == s\<close> for a \<open>str\<close> \<open>s\<close>\<close>
  "eq_str v s = (case v of JStr x \<Rightarrow> x = s | _ \<Rightarrow> False)"

subsection \<open>Events and responses\<close>

text \<open>
  The event is a \<open>dict\<close>: \<open>None\<close> is an absent key. The \<open>body\<close> of a response, \<open>response_body\<close>, is the value
  handed to \<open>json.dumps\<close>, the \<open>headers\<close> are \<open>None\<close> in a response without that key.
\<close>

record http_event =
  ev_body :: "string option"
  ev_headers :: "(string \<rightharpoonup> string) option"

record response =
  statusCode :: int
  headers :: "(string \<times> string) list option"
  response_body :: json

definition event_body :: "http_event \<Rightarrow> string io" where
  \<comment> \<open>\<open>event['body']\<close>\<close>
  "event_body event =
     (case ev_body event of
        None \<Rightarrow> io_raise (Exn KeyError (repr_key ''body''))
      | Some b \<Rightarrow> io_return b)"

definition event_header :: "http_event \<Rightarrow> string \<Rightarrow> string io" where
  \<comment> \<open>\<open>event['headers'][k]\<close>\<close>
  "event_header event k =
     (case ev_headers event of
        None \<Rightarrow> io_raise (Exn KeyError (repr_key ''headers''))
      | Some h \<Rightarrow>
          (case h k of
             None \<Rightarrow> io_raise (Exn KeyError (repr_key k))
           | Some v \<Rightarrow> io_return v))"

subsection \<open>The handlers\<close>

definition decrypt_env_varibles :: "world \<Rightarrow> string io" where
  "decrypt_env_varibles w =
     io_except
       (io_bind (io_check (boto3_client w ''kms'')) (\<lambda>kms_client.
        io_bind (os_environ w ''DISCORD_PUBLIC_KEY'') (\<lambda>public_key_encrypted.
        kms_client_decrypt w public_key_encrypted)))
       [BotoCoreError, ClientError]
       (\<lambda>e. io_raise (Exn RuntimeError (''KMS'' @ txt_decrypt_error @ '': '' @ exn_str e)))"

definition ack_body :: "string \<Rightarrow> json" where
  \<comment> \<open>the body of lines 147 to 153\<close>
  "ack_body success_message =
     JObj [(''type'', JInt 4),
           (''data'', JObj [(''content'', JStr success_message), (''flags'', JInt 4096)])]"

definition ack_response :: "string \<Rightarrow> response" where
  \<comment> \<open>lines 144 to 154\<close>
  "ack_response success_message =
     \<lparr>statusCode = 200,
      headers = Some [(''Content-Type'', ''application/json'')],
      response_body = ack_body success_message\<rparr>"

definition invoke_lambda_function :: "world \<Rightarrow> string \<Rightarrow> string \<Rightarrow> response io" where
  "invoke_lambda_function w function_name success_message =
     io_bind (io_check (boto3_client w ''lambda'')) (\<lambda>client.
     io_bind (io_call (LambdaInvoke function_name ''Event'')
                (io_check (lambda_invoke w function_name ''Event''))) (\<lambda>_.
     io_return (ack_response success_message)))"

definition unhandled_command :: response where
  "unhandled_command = \<lparr>statusCode = 400, headers = None, response_body = JStr ''Unhandled command''\<rparr>"

definition command_handler :: "world \<Rightarrow> json \<Rightarrow> response io" where
  "command_handler w body =
     io_bind (io_lift (getitem body ''data'')) (\<lambda>d.
     io_bind (io_lift (getitem d ''name'')) (\<lambda>command.
     io_bind (io_lift (getitem body ''data'')) (\<lambda>d'.
     io_bind (io_lift (getitem d' ''options'')) (\<lambda>options.
     io_bind (io_lift (getitem0 options)) (\<lambda>option0.
     io_bind (io_lift (getitem option0 ''value'')) (\<lambda>action.
     if eq_str command ''server'' then
       (if eq_str action ''start'' then
          invoke_lambda_function w ''discord-start-instance'' msg_starting
        else if eq_str action ''stop'' then
          invoke_lambda_function w ''discord-stop-instance'' msg_stopping
        else if eq_str action ''status'' then
          invoke_lambda_function w ''discord-check-instance'' msg_fetching
        else io_return unhandled_command)
     else io_return unhandled_command))))))"

definition invalid_signature :: response where
  "invalid_signature =
     \<lparr>statusCode = 401, headers = None, response_body = JStr ''invalid request signature''\<rparr>"

definition pong :: response where
  "pong = \<lparr>statusCode = 200, headers = None, response_body = JObj [(''type'', JInt 1)]\<rparr>"

definition unhandled_type :: response where
  "unhandled_type =
     \<lparr>statusCode = 400, headers = None, response_body = JStr ''unhandled request type''\<rparr>"

definition check_signature :: "world \<Rightarrow> string \<Rightarrow> string \<Rightarrow> string \<Rightarrow> response option io" where
  \<comment> \<open>lines 37 to 43: the inner \<open>try\<close>; \<open>Some r\<close> is its \<open>return r\<close>, \<open>None\<close> falls through\<close>
  "check_signature w key message signature =
     io_except
       (io_bind (io_lift (bytes_fromhex w signature)) (\<lambda>sig_bytes.
        io_bind (io_check (verify w key message sig_bytes)) (\<lambda>_.
        io_return None)))
       [BadSignatureError]
       (\<lambda>e. io_return (Some invalid_signature))"

definition route :: "world \<Rightarrow> json \<Rightarrow> response io" where
  \<comment> \<open>lines 48 to 67\<close>
  "route w body =
     io_bind (io_lift (getitem body ''type'')) (\<lambda>ty.
     if eq_int ty 1 then io_return pong
     else
       io_bind (io_lift (getitem body ''type'')) (\<lambda>ty'.
       if eq_int ty' 2 then command_handler w body
       else io_return unhandled_type))"

definition authenticate :: "world \<Rightarrow> string \<Rightarrow> http_event \<Rightarrow> (json \<times> response option) io" where
  \<comment> \<open>lines 31 to 43: the parsed body, and what the inner \<open>try\<close> returned\<close>
  "authenticate w public_key event =
     io_bind (event_body event) (\<lambda>raw.
     io_bind (io_lift (json_loads w raw)) (\<lambda>body.
     io_bind (event_header event ''x-signature-ed25519'') (\<lambda>signature.
     io_bind (event_header event ''x-signature-timestamp'') (\<lambda>timestamp.
     io_bind (io_lift (bytes_fromhex w public_key)) (\<lambda>key.
     io_bind (io_check (VerifyKey w key)) (\<lambda>verify_key.
     io_bind (event_body event) (\<lambda>raw'.
     io_bind (check_signature w key (timestamp @ raw') signature) (\<lambda>returned.
     io_return (body, returned)))))))))"

definition handle_event :: "world \<Rightarrow> string \<Rightarrow> http_event \<Rightarrow> response io" where
  \<comment> \<open>lines 31 to 67: the body of the outer \<open>try\<close>\<close>
  "handle_event w public_key event =
     io_bind (authenticate w public_key event) (\<lambda>(body, returned).
     case returned of
       Some r \<Rightarrow> io_return r
     | None \<Rightarrow> route w body)"

definition reraise_logged :: "event list \<Rightarrow> exn \<Rightarrow> event list \<times> (exn + response)" where
  \<comment> \<open>lines 69 to 71: \<open>except Exception as e: print(f"[ERROR] {str(e)}"); raise\<close>\<close>
  "reraise_logged t e = (t @ [Print (''[ERROR] '' @ exn_str e)], Inl e)"

definition lambda_handler :: "world \<Rightarrow> http_event \<Rightarrow> event list \<times> (exn + response)" where
  "lambda_handler w event =
     io_bind (decrypt_env_varibles w) (\<lambda>public_key.
       (\<lambda>t. case handle_event w public_key event t of
               (t', Inl e) \<Rightarrow> reraise_logged t' e
             | (t', Inr r) \<Rightarrow> (t', Inr r))) []"

section \<open>Classes of calls\<close>

definition is_kms :: "event \<Rightarrow> bool" where
  "is_kms ev = (case ev of KmsDecrypt _ _ \<Rightarrow> True | _ \<Rightarrow> False)"

section \<open>Worlds to run the handlers in\<close>

text \<open>
  A public key of 32 bytes and signatures of 64 bytes, each with its hexadecimal text: the
  deployment's key, the one signature that verifies under it, and one that does not.
\<close>

definition public_key_hex :: string where
  "public_key_hex = ''0a0a0a0a0a0a0a0a0a0a0a0a0a0a0a0a0a0a0a0a0a0a0a0a0a0a0a0a0a0a0a0a''"

definition public_key_bytes :: string where
  "public_key_bytes = replicate 32 (CHR 0x0A)"

definition valid_signature_hex :: string where
  "valid_signature_hex =
     ''c0c0c0c0c0c0c0c0c0c0c0c0c0c0c0c0c0c0c0c0c0c0c0c0c0c0c0c0c0c0c0c0c0c0c0c0c0c0c0c0c0c0c0c0c0c0c0c0c0c0c0c0c0c0c0c0c0c0c0c0c0c0c0c0''"

definition valid_signature_bytes :: string where
  "valid_signature_bytes = replicate 64 (CHR 0xC0)"

definition forged_signature_hex :: string where
  "forged_signature_hex =
     ''dededededededededededededededededededededededededededededededededededededededededededededededededededededededededededededededede''"

definition forged_signature_bytes :: string where
  "forged_signature_bytes = replicate 64 (CHR 0xDE)"

text \<open>
  A deployment in which every call succeeds: the three encrypted settings are present,
  the instance \<open>i-123\<close> answers "stopping" to the first two state reads and "stopped" to
  the later ones, and the parser, the hex decoder and the signature check reject what
  they are given until a world says otherwise.
\<close>

definition example_world :: world where
  "example_world =
     \<lparr>environ =
        [''INSTANCE_ID'' \<mapsto> ''Y2lwaGVyLWlk'',
         ''DISCORD_WEBHOOK_URL'' \<mapsto> ''Y2lwaGVyLXVybA=='',
         ''DISCORD_PUBLIC_KEY'' \<mapsto> ''Y2lwaGVyLWtleQ=='',
         ''AWS_LAMBDA_FUNCTION_NAME'' \<mapsto> ''fn''],
      boto3_client = (\<lambda>service. None),
      b64decode = (\<lambda>s.
        if s = ''Y2lwaGVyLWlk'' then Inr ''cipher-id''
        else if s = ''Y2lwaGVyLXVybA=='' then Inr ''cipher-url''
        else if s = ''Y2lwaGVyLWtleQ=='' then Inr ''cipher-key''
        else Inl (Exn (OtherException ''binascii.Error'') ''Incorrect padding'')),
      kms_decrypt = (\<lambda>blob name.
        if blob = ''cipher-id'' then Inr ''i-123''
        else if blob = ''cipher-url'' then Inr ''https://discord.example/hook''
        else if blob = ''cipher-key'' then Inr public_key_hex
        else Inl (Exn ClientError ''InvalidCiphertextException'')),
      stop_instances = (\<lambda>ids. None),
      start_instances = (\<lambda>ids. None),
      describe_instances = (\<lambda>n ids.
        Inr [[\<lparr>state_name = (if n < 2 then ''stopping'' else ''stopped''),
                public_ip_address = None\<rparr>]]),
      requests_post = (\<lambda>url data. None),
      lambda_invoke = (\<lambda>name invocation_type. None),
      json_loads = (\<lambda>s. Inl (Exn (OtherException ''JSONDecodeError'') ''Expecting value'')),
      bytes_fromhex = (\<lambda>s.
        Inl (Exn ValueError ''non-hexadecimal number found in fromhex() arg'')),
      VerifyKey = (\<lambda>key. None),
      verify = (\<lambda>key message signature.
        Some (Exn BadSignatureError ''Signature was forged or corrupt''))\<rparr>"

definition unconfigured_world :: world where
  \<comment> \<open>the same deployment without \<open>DISCORD_WEBHOOK_URL\<close>\<close>
  "unconfigured_world =
     example_world\<lparr>environ :=
       [''INSTANCE_ID'' \<mapsto> ''Y2lwaGVyLWlk'', ''AWS_LAMBDA_FUNCTION_NAME'' \<mapsto> ''fn'']\<rparr>"

definition failing_post_world :: world where
  \<comment> \<open>the example deployment with the webhook unreachable\<close>
  "failing_post_world =
     example_world\<lparr>requests_post :=
       (\<lambda>url data. Some (Exn RequestException ''Connection refused''))\<rparr>"

definition running_world :: world where
  \<comment> \<open>the example deployment with the instance running at 10.0.0.5\<close>
  "running_world =
     example_world\<lparr>describe_instances :=
       (\<lambda>n ids. Inr [[\<lparr>state_name = ''running'',
                         public_ip_address = Some ''10.0.0.5''\<rparr>]])\<rparr>"

definition unreachable_running_world :: world where
  \<comment> \<open>the same configuration and the same first state read; the webhook is unreachable,
      stopping is refused and later reads fail\<close>
  "unreachable_running_world =
     running_world\<lparr>requests_post :=
                     (\<lambda>url data. Some (Exn RequestException ''Connection refused'')),
                   stop_instances := (\<lambda>ids. Some (Exn ClientError ''UnauthorizedOperation'')),
                   describe_instances :=
                     (\<lambda>n ids. if n = 0 then describe_instances running_world 0 ids
                              else Inl (Exn ClientError ''RequestLimitExceeded''))\<rparr>"

definition command_body :: "string \<Rightarrow> string \<Rightarrow> json" where
  \<comment> \<open>the parsed body of a slash command with one option, as Discord sends it\<close>
  "command_body name action =
     JObj [(''type'', JInt 2),
           (''data'', JObj [(''name'', JStr name),
                            (''options'', JArr [JObj [(''name'', JStr ''action''),
                                                      (''type'', JInt 3),
                                                      (''value'', JStr action)]])])]"

definition stop_command_raw :: string where
  \<comment> \<open>the text of that body for \<open>/server stop\<close>\<close>
  \<open>stop_command_raw =
     ''{"type": 2, "data": {"name": "server", "options": [{"name": "action", "type": 3, "value": "stop"}]}}''\<close>

definition gateway_world :: world where
  \<comment> \<open>the example deployment with a parser for three bodies, a hex decoder for four texts,
      and a signature check with the length checks of PyNaCl and, standing for Ed25519,
      one valid signature under the key\<close>
  \<open>gateway_world =
     example_world\<lparr>
       json_loads := (\<lambda>s.
         if s = ''{"type": 1}'' then Inr (JObj [(''type'', JInt 1)])
         else if s = ''{"type": 3}'' then Inr (JObj [(''type'', JInt 3)])
         else if s = stop_command_raw then Inr (command_body ''server'' ''stop'')
         else Inl (Exn (OtherException ''JSONDecodeError'') ''Expecting value'')),
       bytes_fromhex := (\<lambda>s.
         if s = public_key_hex then Inr public_key_bytes
         else if s = valid_signature_hex then Inr valid_signature_bytes
         else if s = forged_signature_hex then Inr forged_signature_bytes
         else if s = ''c0de'' then Inr [CHR 0xC0, CHR 0xDE]
         else Inl (Exn ValueError ''non-hexadecimal number found in fromhex() arg'')),
       VerifyKey := (\<lambda>key.
         if length key = 32 then None
         else Some (Exn ValueError ''The key must be exactly 32 bytes long'')),
       verify := (\<lambda>key message signature.
         if length signature \<noteq> 64
         then Some (Exn ValueError ''The signature must be exactly 64 bytes long'')
         else if key = public_key_bytes \<and> signature = valid_signature_bytes then None
         else Some (Exn BadSignatureError ''Signature was forged or corrupt''))\<rparr>\<close>

definition request :: "string \<Rightarrow> string \<Rightarrow> http_event" where
  \<comment> \<open>a request with both signature headers and the body \<open>raw\<close>\<close>
  "request signature raw =
     \<lparr>ev_body = Some raw,
      ev_headers = Some [''x-signature-ed25519'' \<mapsto> signature,
                         ''x-signature-timestamp'' \<mapsto> ''1700000000'']\<rparr>"

definition signed_event :: "string \<Rightarrow> http_event" where
  \<comment> \<open>a request with the valid signature\<close>
  "signed_event raw = request valid_signature_hex raw"



definition ping_command_raw :: string where
  \<comment> \<open>the text of that body\<close>
  \<open>ping_command_raw = ''{"type": 2, "data": {"name": "ping"}}''\<close>


section \<open>The handlers, step by step\<close>

text \<open>
  Each handler as a case analysis on what the world answers, and the calls each stage can
  add to the calls made so far.
\<close>

lemmas io_defs =
  io_return_def io_raise_def io_bind_def io_except_def io_lift_def io_check_def io_call_def

lemma io_bind_Inl: "m t = (t', Inl e) \<Longrightarrow> io_bind m f t = (t', Inl e)"
  by (simp add: io_bind_def)

lemma io_bind_Inr: "m t = (t', Inr x) \<Longrightarrow> io_bind m f t = f x t'"
  by (simp add: io_bind_def)

lemma read_environment_eq:
  "read_environment w t =
     (case environ w ''INSTANCE_ID'' of
        None \<Rightarrow>
          (t, Inl (Exn ValueError
                 (txt_env_var @ '' '' @ repr_key ''INSTANCE_ID'' @ '' '' @ txt_not_found)))
      | Some a \<Rightarrow>
         (case environ w ''DISCORD_WEBHOOK_URL'' of
            None \<Rightarrow>
              (t, Inl (Exn ValueError
                     (txt_env_var @ '' '' @ repr_key ''DISCORD_WEBHOOK_URL'' @ '' ''
                      @ txt_not_found)))
          | Some b \<Rightarrow> (t, Inr (a, b))))"
  by (simp add: read_environment_def os_environ_def io_defs caught_by_def issubclass_def
           split: option.splits)

lemma kms_client_decrypt_eq:
  "kms_client_decrypt w x t =
     (case b64decode w x of
        Inl e \<Rightarrow> (t, Inl e)
      | Inr blob \<Rightarrow>
          (case environ w ''AWS_LAMBDA_FUNCTION_NAME'' of
             None \<Rightarrow> (t, Inl (Exn KeyError (repr_key ''AWS_LAMBDA_FUNCTION_NAME'')))
           | Some name \<Rightarrow> (t @ [KmsDecrypt blob name], kms_decrypt w blob name)))"
  by (simp add: kms_client_decrypt_def os_environ_def io_defs split: option.splits sum.splits)

lemma kms_client_decrypt_trace:
  "kms_client_decrypt w x t = (t', r) \<Longrightarrow> \<exists>k. t' = t @ k \<and> list_all is_kms k"
  by (auto simp: kms_client_decrypt_eq is_kms_def split: option.splits sum.splits)

lemma decrypt_configuration_trace:
  "decrypt_configuration w enc t = (t', r) \<Longrightarrow> \<exists>k. t' = t @ k \<and> list_all is_kms k"
  unfolding decrypt_configuration_def io_defs
  by (auto split: option.splits sum.splits prod.splits if_splits
           dest!: kms_client_decrypt_trace)

lemma preamble_trace:
  "preamble w t = (t', r) \<Longrightarrow> \<exists>k. t' = t @ k \<and> list_all is_kms k"
  unfolding preamble_def io_bind_def
  by (auto simp: read_environment_eq split: option.splits sum.splits prod.splits
           dest!: decrypt_configuration_trace)

lemma preamble_Inr:
  "preamble w t = (t', Inr (instance_id, url)) \<Longrightarrow>
     \<exists>a b ca cb name.
       environ w ''INSTANCE_ID'' = Some a \<and> environ w ''DISCORD_WEBHOOK_URL'' = Some b \<and>
       boto3_client w ''kms'' = None \<and>
       b64decode w a = Inr ca \<and> b64decode w b = Inr cb \<and>
       environ w ''AWS_LAMBDA_FUNCTION_NAME'' = Some name \<and>
       kms_decrypt w ca name = Inr instance_id \<and> kms_decrypt w cb name = Inr url \<and>
       t' = t @ [KmsDecrypt ca name, KmsDecrypt cb name]"
  unfolding preamble_def decrypt_configuration_def io_defs
  by (auto simp: read_environment_eq kms_client_decrypt_eq
           split: option.splits sum.splits prod.splits if_splits)

lemma preamble_missing:
  "environ w ''INSTANCE_ID'' = None \<or> environ w ''DISCORD_WEBHOOK_URL'' = None \<Longrightarrow>
   preamble w t =
     (t, Inl (Exn ValueError (txt_env_var @ '' '' @
        repr_key (if environ w ''INSTANCE_ID'' = None
                  then ''INSTANCE_ID'' else ''DISCORD_WEBHOOK_URL'')
        @ '' '' @ txt_not_found)))"
  unfolding preamble_def io_bind_def
  by (auto simp: read_environment_eq split: option.splits)

lemma poll_loop_False: "poll_loop w instance_id False t = Some (t, Inr ())"
  by (subst poll_loop.simps) simp

lemma stop_ec2_eq:
  "stop_ec2 w instance_id t =
     Some (case boto3_client w ''ec2'' of
             Some e \<Rightarrow> (t, Inl (if caught_by e ec2_errors then ec2_error e else e))
           | None \<Rightarrow>
              (case stop_instances w [instance_id] of
                 Some e \<Rightarrow> (t @ [Ec2StopInstances [instance_id]],
                             Inl (if caught_by e ec2_errors then ec2_error e else e))
               | None \<Rightarrow> (t @ [Ec2StopInstances [instance_id]], Inr ())))"
  by (simp add: stop_ec2_def io_defs poll_loop_False split: option.splits)

lemma post_webhook_eq:
  "post_webhook w url data t =
     (t @ [RequestsPost url data],
      case requests_post w url data of
        None \<Rightarrow> Inr ()
      | Some e \<Rightarrow>
          Inl (if issubclass (exn_class e) RequestException then webhook_error e else e))"
  by (simp add: post_webhook_def io_defs caught_by_def split: option.splits)

lemma stop_lambda_handler_eq:
  "stop_lambda_handler w =
     Some (case preamble w [] of
             (t, Inl e) \<Rightarrow> (t, Inl e)
           | (t, Inr (instance_id, url)) \<Rightarrow>
               (case boto3_client w ''ec2'' of
                  Some e \<Rightarrow> (t, Inl (if caught_by e ec2_errors then ec2_error e else e))
                | None \<Rightarrow>
                   (case stop_instances w [instance_id] of
                      Some e \<Rightarrow> (t @ [Ec2StopInstances [instance_id]],
                                  Inl (if caught_by e ec2_errors then ec2_error e else e))
                    | None \<Rightarrow>
                       (t @ [Ec2StopInstances [instance_id],
                             RequestsPost url (stop_data instance_id)],
                        case requests_post w url (stop_data instance_id) of
                          None \<Rightarrow> Inr ''-''
                        | Some e \<Rightarrow>
                            Inl (if issubclass (exn_class e) RequestException
                                 then webhook_error e else e)))))"
  by (simp add: stop_lambda_handler_def stop_ec2_eq post_webhook_eq io_bind_def io_return_def
           split: option.splits sum.splits prod.splits)

lemma poll_loop_step_stopped:
  assumes "describe_instances w (length (filter is_describe t)) [instance_id]
             = Inr ((i # others) # reservations)"
      and "state_name i = ''stopped''"
  shows "poll_loop w instance_id True t
           = Some (t @ [Ec2DescribeInstances [instance_id]], Inr ())"
  using assms
  by (subst poll_loop.simps)
     (simp add: ec2_describe_instances_def first_instance_def poll_loop_False)

lemma poll_loop_step_other:
  assumes "describe_instances w (length (filter is_describe t)) [instance_id]
             = Inr ((i # others) # reservations)"
      and "state_name i \<noteq> ''stopped''"
  shows "poll_loop w instance_id True t
           = poll_loop w instance_id True
               (t @ [Ec2DescribeInstances [instance_id], TimeSleep 5])"
  using assms
  by (subst poll_loop.simps)
     (simp add: ec2_describe_instances_def first_instance_def)

lemma poll_loop_polls_until_stopped:
  assumes "\<forall>k<n. \<exists>i others reservations.
             describe_instances w (length (filter is_describe t) + k) [instance_id]
               = Inr ((i # others) # reservations) \<and> state_name i \<noteq> ''stopped''"
      and "\<exists>i others reservations.
             describe_instances w (length (filter is_describe t) + n) [instance_id]
               = Inr ((i # others) # reservations) \<and> state_name i = ''stopped''"
  shows "poll_loop w instance_id True t
           = Some (t @ concat (replicate n [Ec2DescribeInstances [instance_id], TimeSleep 5])
                     @ [Ec2DescribeInstances [instance_id]],
                   Inr ())"
  using assms
proof (induction n arbitrary: t)
  case 0
  then show ?case by (auto simp: poll_loop_step_stopped)
next
  case (Suc n)
  let ?t = "t @ [Ec2DescribeInstances [instance_id], TimeSleep 5]"
  have len: "length (filter is_describe ?t) = Suc (length (filter is_describe t))"
    by (simp add: is_describe_def)
  from Suc.prems(1) obtain i others reservations where
    first: "describe_instances w (length (filter is_describe t)) [instance_id]
              = Inr ((i # others) # reservations)" "state_name i \<noteq> ''stopped''"
    by (metis add.right_neutral zero_less_Suc)
  have a: "\<forall>k<n. \<exists>i others reservations.
             describe_instances w (length (filter is_describe ?t) + k) [instance_id]
               = Inr ((i # others) # reservations) \<and> state_name i \<noteq> ''stopped''"
  proof (intro allI impI)
    fix k assume "k < n"
    then have "Suc k < Suc n" by simp
    with Suc.prems(1) show "\<exists>i others reservations.
             describe_instances w (length (filter is_describe ?t) + k) [instance_id]
               = Inr ((i # others) # reservations) \<and> state_name i \<noteq> ''stopped''"
      unfolding len by (metis add_Suc_shift)
  qed
  have b: "\<exists>i others reservations.
             describe_instances w (length (filter is_describe ?t) + n) [instance_id]
               = Inr ((i # others) # reservations) \<and> state_name i = ''stopped''"
    using Suc.prems(2) unfolding len by simp
  show ?case
    unfolding poll_loop_step_other [OF first] Suc.IH [OF a b] by simp
qed

lemma kms_no_post: "list_all is_kms k \<Longrightarrow> RequestsPost u d \<notin> set k"
  by (auto simp: list_all_iff is_kms_def)

lemma preamble_kms: "preamble w [] = (t, r) \<Longrightarrow> list_all is_kms t"
  by (drule preamble_trace) simp

lemma stop_total: "\<exists>t r. stop_lambda_handler w = Some (t, r)"
  by (cases "preamble w []") (simp add: stop_lambda_handler_eq)

lemma stop_post_inv:
  assumes "stop_lambda_handler w = Some (t, r)" and "RequestsPost url data \<in> set t"
  shows "\<exists>k instance_id.
           preamble w [] = (k, Inr (instance_id, url)) \<and>
           boto3_client w ''ec2'' = None \<and> stop_instances w [instance_id] = None \<and>
           data = stop_data instance_id \<and>
           t = k @ [Ec2StopInstances [instance_id], RequestsPost url data] \<and>
           r = (case requests_post w url data of
                  None \<Rightarrow> Inr ''-''
                | Some e \<Rightarrow>
                    Inl (if issubclass (exn_class e) RequestException
                         then webhook_error e else e))"
proof (cases "preamble w []")
  case (Pair k res)
  then have kms: "list_all is_kms k" by (rule preamble_kms)
  show ?thesis
  proof (cases res)
    case (Inl e)
    with Pair assms kms show ?thesis
      by (auto simp: stop_lambda_handler_eq dest: kms_no_post)
  next
    case (Inr c)
    obtain instance_id u where c: "c = (instance_id, u)" by (cases c)
    show ?thesis
    proof (cases "boto3_client w ''ec2''")
      case (Some e)
      with Pair Inr c assms kms show ?thesis
        by (auto simp: stop_lambda_handler_eq dest: kms_no_post)
    next
      case None
      note client = None
      show ?thesis
      proof (cases "stop_instances w [instance_id]")
        case (Some e)
        with Pair Inr c client assms kms show ?thesis
          by (auto simp: stop_lambda_handler_eq dest: kms_no_post)
      next
        case None
        with Pair Inr c client assms kms show ?thesis
          by (auto simp: stop_lambda_handler_eq dest: kms_no_post)
      qed
    qed
  qed
qed

lemma kms_no_describe: "list_all is_kms k \<Longrightarrow> filter is_describe k = []"
  by (induction k) (auto simp: is_kms_def is_describe_def split: event.splits)

lemma kms_no_sleep: "list_all is_kms k \<Longrightarrow> TimeSleep n \<notin> set k"
  by (auto simp: list_all_iff is_kms_def)

lemma stop_never_reads_or_waits:
  assumes "stop_lambda_handler w = Some (t, r)"
  shows "filter is_describe t = [] \<and> TimeSleep n \<notin> set t"
proof (cases "preamble w []")
  case (Pair k res)
  then have kms: "list_all is_kms k" by (rule preamble_kms)
  from kms have nd: "filter is_describe k = []" by (rule kms_no_describe)
  from kms have ns: "TimeSleep n \<notin> set k" by (rule kms_no_sleep)
  show ?thesis
    using assms Pair nd ns
    by (auto simp: stop_lambda_handler_eq is_describe_def
             split: sum.splits option.splits prod.splits)
qed

lemma check_ec2_eq:
  "check_ec2 w instance_id t =
     (case boto3_client w ''ec2'' of
        Some e \<Rightarrow> (t, Inl (if caught_by e ec2_errors then ec2_error e else e))
      | None \<Rightarrow>
          (t @ [Ec2DescribeInstances [instance_id]],
           case describe_instances w (length (filter is_describe t)) [instance_id] of
             Inl e \<Rightarrow> Inl (if caught_by e ec2_errors then ec2_error e else e)
           | Inr r \<Rightarrow>
               (case first_instance r of
                  Inl e \<Rightarrow> Inl e
                | Inr i \<Rightarrow> Inr (check_data instance_id i))))"
  by (auto simp: check_ec2_def ec2_describe_instances_def io_defs first_instance_def
        caught_by_def ec2_errors_def issubclass_def
      split: option.splits sum.splits list.splits)

lemma check_lambda_handler_eq:
  "check_lambda_handler w =
     (case preamble w [] of
        (t, Inl e) \<Rightarrow> (t, Inl e)
      | (t, Inr (instance_id, url)) \<Rightarrow>
          (case check_ec2 w instance_id t of
             (t1, Inl e) \<Rightarrow> (t1, Inl e)
           | (t1, Inr (data, res)) \<Rightarrow>
               (t1 @ [RequestsPost url data],
                case requests_post w url data of
                  None \<Rightarrow> Inr res
                | Some e \<Rightarrow>
                    Inl (if issubclass (exn_class e) RequestException
                         then webhook_error e else e))))"
  by (simp add: check_lambda_handler_def post_webhook_eq io_bind_def io_return_def
      split: option.splits sum.splits prod.splits)

lemma check_reads_at_most_once:
  "length (filter is_describe (fst (check_lambda_handler w))) \<le> 1"
proof (cases "preamble w []")
  case (Pair t res)
  then have "filter is_describe t = []"
    using preamble_trace [of w "[]" t res] kms_no_describe by auto
  with Pair show ?thesis
    by (auto simp: check_lambda_handler_eq check_ec2_eq is_describe_def
             split: sum.splits option.splits prod.splits)
qed

lemma check_success:
  assumes "preamble w [] = (t0, Inr (instance_id, url))"
      and "boto3_client w ''ec2'' = None"
      and "describe_instances w 0 [instance_id] = Inr ((i # others) # reservations)"
  shows "check_lambda_handler w =
     (t0 @ [Ec2DescribeInstances [instance_id],
            RequestsPost url (fst (check_data instance_id i))],
      case requests_post w url (fst (check_data instance_id i)) of
        None \<Rightarrow> Inr (snd (check_data instance_id i))
      | Some e \<Rightarrow>
          Inl (if issubclass (exn_class e) RequestException then webhook_error e else e))"
proof -
  have "filter is_describe t0 = []"
    using preamble_trace [OF assms(1)] kms_no_describe by auto
  with assms show ?thesis
    by (cases "check_data instance_id i")
       (simp add: check_lambda_handler_eq check_ec2_eq first_instance_def
             split: option.splits)
qed




lemma check_data_running:
  assumes "state_name i = ''running''"
  shows "check_data instance_id i =
     (JObj [(''content'', JStr (txt_instance_open @ instance_id @ txt_is_running
                                 @ [CHR 0x0D] @ str_opt (public_ip_address i))),
            (''flags'', JInt 4096)],
      ''running '' @ str_opt (public_ip_address i))"
  using assms by (simp add: check_data_def Let_def)




lemma check_post_inv:
  assumes "RequestsPost u d \<in> set (fst (check_lambda_handler w))"
  shows "\<exists>t instance_id r i.
           preamble w [] = (t, Inr (instance_id, u)) \<and>
           describe_instances w 0 [instance_id] = Inr r \<and>
           first_instance r = Inr i \<and>
           d = fst (check_data instance_id i)"
proof (cases "preamble w []")
  case (Pair t res)
  then have kms: "list_all is_kms t" by (rule preamble_kms)
  then have nd: "filter is_describe t = []" by (rule kms_no_describe)
  from kms have np: "\<And>u d. RequestsPost u d \<notin> set t" by (rule kms_no_post)
  show ?thesis
    using assms Pair nd np
    by (auto simp: check_lambda_handler_eq check_ec2_eq
             split: sum.splits option.splits prod.splits)
qed

lemma preamble_determined:
  assumes "environ w1 = environ w2" and "b64decode w1 = b64decode w2"
      and "kms_decrypt w1 = kms_decrypt w2"
      and "preamble w1 [] = (t1, Inr c1)" and "preamble w2 [] = (t2, Inr c2)"
  shows "c1 = c2"
proof -
  obtain i1 u1 where c1: "c1 = (i1, u1)" by (cases c1)
  obtain i2 u2 where c2: "c2 = (i2, u2)" by (cases c2)
  from preamble_Inr [OF assms(4) [unfolded c1]] preamble_Inr [OF assms(5) [unfolded c2]]
  show ?thesis using assms(1-3) c1 c2 by auto
qed

lemma invoke_lambda_function_eq:
  "invoke_lambda_function w function_name success_message t =
     (case boto3_client w ''lambda'' of
        Some e \<Rightarrow> (t, Inl e)
      | None \<Rightarrow>
          (t @ [LambdaInvoke function_name ''Event''],
           case lambda_invoke w function_name ''Event'' of
             Some e \<Rightarrow> Inl e
           | None \<Rightarrow> Inr (ack_response success_message)))"
  by (simp add: invoke_lambda_function_def io_defs split: option.splits)


lemma eq_str_iff: "eq_str v s \<longleftrightarrow> v = JStr s"
  by (cases v) (auto simp: eq_str_def)

lemma command_handler_eq:
  assumes "getitem body ''data'' = Inr d" and "getitem d ''name'' = Inr command"
      and "getitem d ''options'' = Inr options" and "getitem0 options = Inr option0"
      and "getitem option0 ''value'' = Inr action"
  shows "command_handler w body t =
     (if command = JStr ''server'' \<and> action = JStr ''start''
      then invoke_lambda_function w ''discord-start-instance'' msg_starting t
      else if command = JStr ''server'' \<and> action = JStr ''stop''
      then invoke_lambda_function w ''discord-stop-instance'' msg_stopping t
      else if command = JStr ''server'' \<and> action = JStr ''status''
      then invoke_lambda_function w ''discord-check-instance'' msg_fetching t
      else (t, Inr unhandled_command))"
  using assms by (simp add: command_handler_def io_defs eq_str_iff)

lemma route_eq:
  assumes "getitem body ''type'' = Inr ty"
  shows "route w body t =
     (if eq_int ty 1 then (t, Inr pong)
      else if eq_int ty 2 then command_handler w body t
      else (t, Inr unhandled_type))"
  using assms by (simp add: route_def io_defs)


lemma lambda_handler_eq:
  assumes "decrypt_env_varibles w [] = (t0, Inr public_key)"
  shows "lambda_handler w event =
     (case authenticate w public_key event t0 of
        (t1, Inl e) \<Rightarrow> reraise_logged t1 e
      | (t1, Inr (body, Some r)) \<Rightarrow> (t1, Inr r)
      | (t1, Inr (body, None)) \<Rightarrow>
          (case route w body t1 of
             (t2, Inl e) \<Rightarrow> reraise_logged t2 e
           | (t2, Inr r) \<Rightarrow> (t2, Inr r)))"
  using assms
  by (simp add: lambda_handler_def handle_event_def io_bind_def io_return_def
           split: prod.splits sum.splits option.splits)

lemma check_signature_eq:
  "check_signature w key message signature t =
     (t, case bytes_fromhex w signature of
           Inl e \<Rightarrow>
             if exn_class e = BadSignatureError then Inr (Some invalid_signature) else Inl e
         | Inr sig_bytes \<Rightarrow>
             (case verify w key message sig_bytes of
                None \<Rightarrow> Inr None
              | Some e \<Rightarrow>
                  if exn_class e = BadSignatureError then Inr (Some invalid_signature)
                  else Inl e))"
  by (simp add: check_signature_def io_defs caught_by_def issubclass_def
           split: sum.splits option.splits)

lemma authenticate_eq:
  "authenticate w public_key event t =
     (t, case ev_body event of
           None \<Rightarrow> Inl (Exn KeyError (repr_key ''body''))
         | Some raw \<Rightarrow>
            (case json_loads w raw of
               Inl e \<Rightarrow> Inl e
             | Inr body \<Rightarrow>
                (case ev_headers event of
                   None \<Rightarrow> Inl (Exn KeyError (repr_key ''headers''))
                 | Some h \<Rightarrow>
                    (case h ''x-signature-ed25519'' of
                       None \<Rightarrow> Inl (Exn KeyError (repr_key ''x-signature-ed25519''))
                     | Some signature \<Rightarrow>
                        (case h ''x-signature-timestamp'' of
                           None \<Rightarrow> Inl (Exn KeyError (repr_key ''x-signature-timestamp''))
                         | Some timestamp \<Rightarrow>
                            (case bytes_fromhex w public_key of
                               Inl e \<Rightarrow> Inl e
                             | Inr key \<Rightarrow>
                                (case VerifyKey w key of
                                   Some e \<Rightarrow> Inl e
                                 | None \<Rightarrow>
                                    (case snd (check_signature w key (timestamp @ raw)
                                                 signature t) of
                                       Inl e \<Rightarrow> Inl e
                                     | Inr returned \<Rightarrow> Inr (body, returned)))))))))"
  by (simp add: authenticate_def event_body_def event_header_def io_defs check_signature_eq
           split: sum.splits option.splits)

lemma authenticate_passes_iff:
  "authenticate w public_key event t = (t', Inr (body, None)) \<longleftrightarrow>
     t' = t \<and>
     (\<exists>raw h signature timestamp key sig_bytes.
        ev_body event = Some raw \<and> json_loads w raw = Inr body \<and>
        ev_headers event = Some h \<and>
        h ''x-signature-ed25519'' = Some signature \<and>
        h ''x-signature-timestamp'' = Some timestamp \<and>
        bytes_fromhex w public_key = Inr key \<and> VerifyKey w key = None \<and>
        bytes_fromhex w signature = Inr sig_bytes \<and>
        verify w key (timestamp @ raw) sig_bytes = None)"
  by (auto simp: authenticate_eq check_signature_eq invalid_signature_def
           split: sum.splits option.splits if_splits)


lemma start_post_inv:
  assumes "RequestsPost u d \<in> set (fst (start_lambda_handler started_text start_flags w))"
  shows "\<exists>instance_id. d = start_data started_text start_flags instance_id"
proof (cases "preamble w []")
  case (Pair t res)
  then have kms: "list_all is_kms t" by (rule preamble_kms)
  from kms have np: "\<And>u d. RequestsPost u d \<notin> set t" by (rule kms_no_post)
  show ?thesis
    using assms Pair np
    by (auto simp: start_lambda_handler_def post_webhook_eq io_defs caught_by_def
             split: sum.splits option.splits prod.splits if_splits)
qed

lemma flags_of_notifications:
  "getitem (stop_data instance_id) ''flags'' = Inr (JInt 4096)"
  "getitem (start_data started_text start_flags instance_id) ''flags''
     = Inr (JInt start_flags)"
  "getitem (fst (check_data instance_id i)) ''flags'' = Inr (JInt 4096)"
  by (simp_all add: stop_data_def start_data_def check_data_def Let_def getitem_def)

lemma invoke_response:
  "invoke_lambda_function w f m t = (t', Inr r) \<Longrightarrow> r = ack_response m"
  by (auto simp: invoke_lambda_function_eq split: option.splits)

lemma command_handler_response:
  assumes "command_handler w body t = (t', Inr r)"
  shows "r = unhandled_command \<or> (\<exists>m. r = ack_response m)"
  using assms unfolding command_handler_def io_bind_def io_lift_def io_return_def
  by (auto split: sum.splits if_splits dest: invoke_response)

lemma route_response:
  assumes "route w body t = (t', Inr r)"
  shows "r = pong \<or> r = unhandled_type \<or> r = unhandled_command \<or> (\<exists>m. r = ack_response m)"
  using assms unfolding route_def io_bind_def io_lift_def io_return_def
  by (auto split: sum.splits if_splits dest: command_handler_response)

lemma lambda_handler_response:
  assumes "snd (lambda_handler w event) = Inr r"
  shows "r = invalid_signature \<or> r = pong \<or> r = unhandled_type \<or> r = unhandled_command
           \<or> (\<exists>m. r = ack_response m)"
proof (cases "decrypt_env_varibles w []")
  case (Pair t0 res)
  show ?thesis
  proof (cases res)
    case (Inl e)
    with Pair assms show ?thesis by (simp add: lambda_handler_def io_bind_def)
  next
    case (Inr public_key)
    with Pair have d: "decrypt_env_varibles w [] = (t0, Inr public_key)" by simp
    show ?thesis
      using assms
      by (auto simp: lambda_handler_eq [OF d] authenticate_eq check_signature_eq
                     reraise_logged_def
               split: sum.splits option.splits prod.splits if_splits
               dest: route_response)
  qed
qed

section \<open>The flags of the payloads\<close>

text \<open>
  The payloads that the sources build carry the flags value 4096: the acknowledgment that
  \<open>invoke_lambda_function\<close> returns; every response of the gateway that has a \<open>data\<close>
  member at all; every notification that the Stop worker and the Status worker post, in
  whatever world they run. The Start worker, as the spec describes it, posts the flags
  it is given: its source is absent and the spec leaves the value open, so whether its
  notifications carry 4096 as well (the rest of C10) is not decided here.
\<close>

lemma payloads_of_the_sources_carry_flags_4096:
  "(\<forall>t' r. invoke_lambda_function w function_name success_message t = (t', Inr r) \<longrightarrow>
      response_body r =
        JObj [(''type'', JInt 4),
              (''data'', JObj [(''content'', JStr success_message), (''flags'', JInt 4096)])])
   \<and> (\<forall>r d. snd (lambda_handler w event) = Inr r \<and>
             getitem (response_body r) ''data'' = Inr d \<longrightarrow>
             getitem d ''flags'' = Inr (JInt 4096))
   \<and> (\<forall>t r u d. stop_lambda_handler w = Some (t, r) \<and> RequestsPost u d \<in> set t \<longrightarrow>
             getitem d ''flags'' = Inr (JInt 4096))
   \<and> (\<forall>u d. RequestsPost u d \<in> set (fst (check_lambda_handler w)) \<longrightarrow>
             getitem d ''flags'' = Inr (JInt 4096))
   \<and> (\<forall>u d. RequestsPost u d
               \<in> set (fst (start_lambda_handler started_text start_flags w)) \<longrightarrow>
             getitem d ''flags'' = Inr (JInt start_flags))"
proof (intro conjI allI impI)
  fix t' r
  assume "invoke_lambda_function w function_name success_message t = (t', Inr r)"
  then show "response_body r =
        JObj [(''type'', JInt 4),
              (''data'', JObj [(''content'', JStr success_message), (''flags'', JInt 4096)])]"
    by (auto dest!: invoke_response simp: ack_response_def ack_body_def)
next
  fix r d
  assume a: "snd (lambda_handler w event) = Inr r \<and>
             getitem (response_body r) ''data'' = Inr d"
  from lambda_handler_response [of w event r] a
  show "getitem d ''flags'' = Inr (JInt 4096)"
    by (auto simp: invalid_signature_def pong_def unhandled_type_def unhandled_command_def
                   ack_response_def ack_body_def getitem_def)
next
  fix t r u d
  assume "stop_lambda_handler w = Some (t, r) \<and> RequestsPost u d \<in> set t"
  then show "getitem d ''flags'' = Inr (JInt 4096)"
    using stop_post_inv [of w t r u d] flags_of_notifications(1) by auto
next
  fix u d
  assume "RequestsPost u d \<in> set (fst (check_lambda_handler w))"
  then show "getitem d ''flags'' = Inr (JInt 4096)"
    using check_post_inv [of u d w] flags_of_notifications(3) by auto
next
  fix u d
  assume "RequestsPost u d \<in> set (fst (start_lambda_handler started_text start_flags w))"
  then show "getitem d ''flags'' = Inr (JInt start_flags)"
    using start_post_inv [of u d started_text start_flags w] flags_of_notifications(2)
    by auto
qed

section \<open>The handlers in the example worlds\<close>

lemma preamble_example:
  "preamble example_world [] =
     ([KmsDecrypt ''cipher-id'' ''fn'', KmsDecrypt ''cipher-url'' ''fn''],
      Inr (''i-123'', ''https://discord.example/hook''))"
  by (simp add: preamble_def decrypt_configuration_def io_defs read_environment_eq
        kms_client_decrypt_eq example_world_def)

lemma poll_loop_example:
  "poll_loop example_world ''i-123'' True [Ec2StopInstances [''i-123'']]
     = Some ([Ec2StopInstances [''i-123''],
              Ec2DescribeInstances [''i-123''], TimeSleep 5,
              Ec2DescribeInstances [''i-123''], TimeSleep 5,
              Ec2DescribeInstances [''i-123'']],
             Inr ())"
proof -
  have "poll_loop example_world ''i-123'' True [Ec2StopInstances [''i-123'']]
     = Some ([Ec2StopInstances [''i-123'']]
               @ concat (replicate 2 [Ec2DescribeInstances [''i-123''], TimeSleep 5])
               @ [Ec2DescribeInstances [''i-123'']],
             Inr ())"
    by (rule poll_loop_polls_until_stopped)
       (auto simp: is_describe_def example_world_def)
  then show ?thesis by (simp add: numeral_2_eq_2)
qed

lemma preamble_failing_post:
  "preamble failing_post_world [] =
     ([KmsDecrypt ''cipher-id'' ''fn'', KmsDecrypt ''cipher-url'' ''fn''],
      Inr (''i-123'', ''https://discord.example/hook''))"
  by (simp add: preamble_def decrypt_configuration_def io_defs read_environment_eq
        kms_client_decrypt_eq example_world_def failing_post_world_def)

lemma stop_failing_post:
  "stop_lambda_handler failing_post_world =
     Some ([KmsDecrypt ''cipher-id'' ''fn'', KmsDecrypt ''cipher-url'' ''fn'',
            Ec2StopInstances [''i-123''],
            RequestsPost ''https://discord.example/hook'' (stop_data ''i-123'')],
           Inl (webhook_error (Exn RequestException ''Connection refused'')))"
  by (simp add: stop_lambda_handler_eq preamble_failing_post)
     (simp add: failing_post_world_def example_world_def issubclass_def)

lemma preamble_running:
  "preamble running_world [] =
     ([KmsDecrypt ''cipher-id'' ''fn'', KmsDecrypt ''cipher-url'' ''fn''],
      Inr (''i-123'', ''https://discord.example/hook''))"
  by (simp add: preamble_def decrypt_configuration_def io_defs read_environment_eq
        kms_client_decrypt_eq example_world_def running_world_def)

lemma check_unreachable_running:
  "RequestsPost ''https://discord.example/hook''
        (JObj [(''content'', JStr (txt_instance_open @ ''i-123'' @ txt_is_running
                                    @ [CHR 0x0D] @ ''10.0.0.5'')),
               (''flags'', JInt 4096)])
     \<in> set (fst (check_lambda_handler unreachable_running_world))"
proof -
  have p: "preamble unreachable_running_world [] =
     ([KmsDecrypt ''cipher-id'' ''fn'', KmsDecrypt ''cipher-url'' ''fn''],
      Inr (''i-123'', ''https://discord.example/hook''))"
    by (simp add: preamble_def decrypt_configuration_def io_defs read_environment_eq
        kms_client_decrypt_eq example_world_def running_world_def
        unreachable_running_world_def)
  have h2: "boto3_client unreachable_running_world ''ec2'' = None"
    by (simp add: unreachable_running_world_def running_world_def example_world_def)
  have h3: "describe_instances unreachable_running_world 0 [''i-123''] =
              Inr ((\<lparr>state_name = ''running'', public_ip_address = Some ''10.0.0.5''\<rparr> # [])
                   # [])"
    by (simp add: unreachable_running_world_def running_world_def example_world_def)
  show ?thesis
    by (simp add: check_success [OF p h2 h3] check_data_running str_opt_def)
qed

lemma stop_command_fields:
  "getitem (command_body name action) ''type'' = Inr (JInt 2)"
  "getitem (command_body name action) ''data''
     = Inr (JObj [(''name'', JStr name),
                  (''options'', JArr [JObj [(''name'', JStr ''action''),
                                            (''type'', JInt 3),
                                            (''value'', JStr action)]])])"
  by (simp_all add: command_body_def getitem_def)

lemma stop_command_raw_differs:
  \<open>stop_command_raw \<noteq> ''{"type": 1}''\<close> \<open>stop_command_raw \<noteq> ''{"type": 3}''\<close>
  by (simp_all add: stop_command_raw_def)

lemma command_data_fields:
  "getitem (JObj [(''name'', JStr name),
                  (''options'', JArr [JObj [(''name'', JStr ''action''), (''type'', JInt 3),
                                            (''value'', JStr action)]])]) ''name''
     = Inr (JStr name)"
  "getitem (JObj [(''name'', JStr name),
                  (''options'', JArr [JObj [(''name'', JStr ''action''), (''type'', JInt 3),
                                            (''value'', JStr action)]])]) ''options''
     = Inr (JArr [JObj [(''name'', JStr ''action''), (''type'', JInt 3),
                        (''value'', JStr action)]])"
  "getitem0 (JArr [JObj [(''name'', JStr ''action''), (''type'', JInt 3),
                         (''value'', JStr action)]])
     = Inr (JObj [(''name'', JStr ''action''), (''type'', JInt 3), (''value'', JStr action)])"
  "getitem (JObj [(''name'', JStr ''action''), (''type'', JInt 3), (''value'', JStr action)])
     ''value'' = Inr (JStr action)"
  by (simp_all add: getitem_def getitem0_def)

lemma hex_texts_differ:
  "valid_signature_hex \<noteq> public_key_hex" "forged_signature_hex \<noteq> public_key_hex"
  "forged_signature_hex \<noteq> valid_signature_hex"
  "''c0de'' \<noteq> public_key_hex" "''c0de'' \<noteq> valid_signature_hex"
  "''c0de'' \<noteq> forged_signature_hex"
  "''zz'' \<noteq> public_key_hex" "''zz'' \<noteq> valid_signature_hex"
  "''zz'' \<noteq> forged_signature_hex"
  by (simp_all add: public_key_hex_def valid_signature_hex_def forged_signature_hex_def)

lemma gateway_hex:
  "bytes_fromhex gateway_world public_key_hex = Inr public_key_bytes"
  "bytes_fromhex gateway_world valid_signature_hex = Inr valid_signature_bytes"
  "bytes_fromhex gateway_world forged_signature_hex = Inr forged_signature_bytes"
  "bytes_fromhex gateway_world ''c0de'' = Inr [CHR 0xC0, CHR 0xDE]"
  "bytes_fromhex gateway_world ''zz''
     = Inl (Exn ValueError ''non-hexadecimal number found in fromhex() arg'')"
  by (simp_all add: gateway_world_def hex_texts_differ)

lemma gateway_verify:
  "VerifyKey gateway_world public_key_bytes = None"
  "verify gateway_world public_key_bytes message valid_signature_bytes = None"
  "verify gateway_world public_key_bytes message forged_signature_bytes
     = Some (Exn BadSignatureError ''Signature was forged or corrupt'')"
  "verify gateway_world public_key_bytes message [CHR 0xC0, CHR 0xDE]
     = Some (Exn ValueError ''The signature must be exactly 64 bytes long'')"
  by (simp_all add: gateway_world_def public_key_bytes_def valid_signature_bytes_def
        forged_signature_bytes_def)

lemma gateway_json:
  \<open>json_loads gateway_world ''{"type": 1}'' = Inr (JObj [(''type'', JInt 1)])\<close>
  \<open>json_loads gateway_world ''{"type": 3}'' = Inr (JObj [(''type'', JInt 3)])\<close>
  "json_loads gateway_world stop_command_raw = Inr (command_body ''server'' ''stop'')"
  by (simp_all add: gateway_world_def stop_command_raw_differs)

lemma request_fields:
  "ev_body (request signature raw) = Some raw"
  "ev_headers (request signature raw)
     = Some [''x-signature-ed25519'' \<mapsto> signature,
             ''x-signature-timestamp'' \<mapsto> ''1700000000'']"
  "[''x-signature-ed25519'' \<mapsto> signature, ''x-signature-timestamp'' \<mapsto> ''1700000000'']
     ''x-signature-ed25519'' = Some signature"
  "[''x-signature-ed25519'' \<mapsto> signature, ''x-signature-timestamp'' \<mapsto> ''1700000000'']
     ''x-signature-timestamp'' = Some ''1700000000''"
  by (simp_all add: request_def)

lemma decrypt_gateway:
  "decrypt_env_varibles gateway_world [] =
     ([KmsDecrypt ''cipher-key'' ''fn''], Inr public_key_hex)"
  by (simp add: decrypt_env_varibles_def io_defs os_environ_def kms_client_decrypt_eq
        gateway_world_def example_world_def)

lemma authenticate_signed:
  assumes "json_loads gateway_world raw = Inr body"
  shows "authenticate gateway_world public_key_hex (signed_event raw) t
           = (t, Inr (body, None))"
  by (simp add: authenticate_eq check_signature_eq signed_event_def request_fields
        gateway_hex gateway_verify assms)

lemma gateway_stop_command:
  "lambda_handler gateway_world (signed_event stop_command_raw) =
     ([KmsDecrypt ''cipher-key'' ''fn'', LambdaInvoke ''discord-stop-instance'' ''Event''],
      Inr (ack_response msg_stopping))"
proof -
  have r: "route gateway_world (command_body ''server'' ''stop'') [KmsDecrypt ''cipher-key'' ''fn'']
           = ([KmsDecrypt ''cipher-key'' ''fn'', LambdaInvoke ''discord-stop-instance'' ''Event''],
              Inr (ack_response msg_stopping))"
    by (simp add: route_eq [OF stop_command_fields(1)] eq_int_def
          command_handler_eq [OF stop_command_fields(2) command_data_fields]
          invoke_lambda_function_eq)
       (simp add: gateway_world_def example_world_def)
  show ?thesis
    by (simp add: lambda_handler_eq [OF decrypt_gateway]
          authenticate_signed [OF gateway_json(3)] r)
qed

lemma ping_command_raw_differs:
  \<open>ping_command_raw \<noteq> ''{"type": 1}''\<close> \<open>ping_command_raw \<noteq> ''{"type": 3}''\<close>
  "ping_command_raw \<noteq> stop_command_raw"
  by (simp_all add: ping_command_raw_def stop_command_raw_def)



section \<open>The Stop worker never reads the state\<close>

text \<open>
  C1. The claim: after the stop is triggered the Stop worker reads the state of the
  instance again and again, five time units apart, leaves the loop at the first read that
  answers "stopped", and sends its one notification only after such a read. The loop of
  lines 72 to 78 does that when it is entered (\<open>poll_loop_polls_until_stopped\<close>), but
  line 71 sets \<open>instance_running = False\<close> just before \<open>while instance_running\<close>, so its
  body never runs: no run of the worker reads the state or waits
  (\<open>stop_never_reads_or_waits\<close>). In the example deployment the instance answers
  "stopping" to the first read, and the loop entered after the stop would read three
  times and wait twice; the worker makes no read and no wait at all and reports that the
  instance has stopped right after the stop call.
\<close>

theorem stop_worker_notifies_without_reading_state:
  "stop_lambda_handler example_world =
     Some ([KmsDecrypt ''cipher-id'' ''fn'', KmsDecrypt ''cipher-url'' ''fn'',
            Ec2StopInstances [''i-123''],
            RequestsPost ''https://discord.example/hook'' (stop_data ''i-123'')],
           Inr ''-'')
   \<and> describe_instances example_world 0 [''i-123'']
       = Inr [[\<lparr>state_name = ''stopping'', public_ip_address = None\<rparr>]]
   \<and> poll_loop example_world ''i-123'' True [Ec2StopInstances [''i-123'']]
       = Some ([Ec2StopInstances [''i-123''],
                Ec2DescribeInstances [''i-123''], TimeSleep 5,
                Ec2DescribeInstances [''i-123''], TimeSleep 5,
                Ec2DescribeInstances [''i-123'']],
               Inr ())"
  by (simp add: stop_lambda_handler_eq preamble_example poll_loop_example)
     (simp add: example_world_def)

section \<open>Authentication failures\<close>




section \<open>Commands are dispatched by exact name and action\<close>




section \<open>Verified events are routed by their type\<close>

text \<open>
  C4. For an event that passes the signature check (\<open>authenticate\<close> returns the parsed
  body and no early response; \<open>authenticate_passes_iff\<close> spells the conditions out) and
  whose body has a \<open>type\<close>: when the type equals 1 the gateway returns status 200 with
  the body \<open>{type: 1}\<close>, whatever else the body holds; when it equals neither 1 nor 2 the
  gateway returns status 400 with the body \<open>"unhandled request type"\<close>. Equality is
  Python's \<open>==\<close>: for an integer type it is equality of numbers.
\<close>

theorem verified_events_are_routed_by_type:
  assumes "decrypt_env_varibles w [] = (t0, Inr public_key)"
      and "authenticate w public_key event t0 = (t1, Inr (body, None))"
      and "getitem body ''type'' = Inr ty"
  shows "(eq_int ty 1 \<longrightarrow>
            lambda_handler w event =
              (t1, Inr \<lparr>statusCode = 200, headers = None,
                        response_body = JObj [(''type'', JInt 1)]\<rparr>))
       \<and> (\<not> eq_int ty 1 \<and> \<not> eq_int ty 2 \<longrightarrow>
            lambda_handler w event =
              (t1, Inr \<lparr>statusCode = 400, headers = None,
                        response_body = JStr ''unhandled request type''\<rparr>))"
  by (simp add: lambda_handler_eq [OF assms(1)] assms(2) route_eq [OF assms(3)]
        pong_def unhandled_type_def)

theorem verified_events_are_routed_by_type_witness:
  \<open>lambda_handler gateway_world (signed_event ''{"type": 1}'') =
     ([KmsDecrypt ''cipher-key'' ''fn''],
      Inr \<lparr>statusCode = 200, headers = None, response_body = JObj [(''type'', JInt 1)]\<rparr>)
   \<and> lambda_handler gateway_world (signed_event ''{"type": 3}'') =
     ([KmsDecrypt ''cipher-key'' ''fn''],
      Inr \<lparr>statusCode = 400, headers = None,
           response_body = JStr ''unhandled request type''\<rparr>)\<close>
proof -
  have t1: "getitem (JObj [(''type'', JInt 1)]) ''type'' = Inr (JInt 1)"
    by (simp add: getitem_def)
  have t3: "getitem (JObj [(''type'', JInt 3)]) ''type'' = Inr (JInt 3)"
    by (simp add: getitem_def)
  from verified_events_are_routed_by_type
         [OF decrypt_gateway authenticate_signed [OF gateway_json(1)] t1]
       verified_events_are_routed_by_type
         [OF decrypt_gateway authenticate_signed [OF gateway_json(2)] t3]
  show ?thesis by (simp add: eq_int_def)
qed

section \<open>The invoker acknowledges at once\<close>

text \<open>
  C5. For every function name and acknowledgment message: when the Lambda client is made
  and the invoke call returns, \<open>invoke_lambda_function\<close> has made exactly one call, an
  invoke of that function with \<open>InvocationType="Event"\<close> (the asynchronous kind, which is
  not awaited), and returns status 200 with the body
  \<open>{type: 4, data: {content: success_message, flags: 4096}}\<close>. What it does depends on the
  world only through the outcome of making the client and of the invoke call itself: two
  worlds that agree on these give the same result, whatever the worker would meet in
  them.
\<close>

theorem invoker_acknowledges_without_observing_the_worker:
  "(boto3_client w ''lambda'' = None \<and> lambda_invoke w function_name ''Event'' = None \<longrightarrow>
      invoke_lambda_function w function_name success_message t =
        (t @ [LambdaInvoke function_name ''Event''],
         Inr \<lparr>statusCode = 200,
              headers = Some [(''Content-Type'', ''application/json'')],
              response_body =
                JObj [(''type'', JInt 4),
                      (''data'', JObj [(''content'', JStr success_message),
                                       (''flags'', JInt 4096)])]\<rparr>))
   \<and> (boto3_client w' ''lambda'' = boto3_client w ''lambda'' \<and>
      lambda_invoke w' function_name ''Event'' = lambda_invoke w function_name ''Event'' \<longrightarrow>
      invoke_lambda_function w' function_name success_message t =
      invoke_lambda_function w function_name success_message t)"
  by (auto simp: invoke_lambda_function_eq ack_response_def ack_body_def
           split: option.splits)

theorem invoker_acknowledges_without_observing_the_worker_witness:
  "invoke_lambda_function example_world ''discord-stop-instance'' msg_stopping [] =
     ([LambdaInvoke ''discord-stop-instance'' ''Event''],
      Inr \<lparr>statusCode = 200,
           headers = Some [(''Content-Type'', ''application/json'')],
           response_body =
             JObj [(''type'', JInt 4),
                   (''data'', JObj [(''content'', JStr msg_stopping),
                                    (''flags'', JInt 4096)])]\<rparr>)
   \<and> invoke_lambda_function failing_post_world ''discord-stop-instance'' msg_stopping [] =
     invoke_lambda_function example_world ''discord-stop-instance'' msg_stopping []"
proof -
  have a: "boto3_client example_world ''lambda'' = None
           \<and> lambda_invoke example_world ''discord-stop-instance'' ''Event'' = None"
    by (simp add: example_world_def)
  have b: "boto3_client failing_post_world ''lambda'' = boto3_client example_world ''lambda''
           \<and> lambda_invoke failing_post_world ''discord-stop-instance'' ''Event''
             = lambda_invoke example_world ''discord-stop-instance'' ''Event''"
    by (simp add: failing_post_world_def)
  from a b
    invoker_acknowledges_without_observing_the_worker
      [of example_world "''discord-stop-instance''" msg_stopping "[]" failing_post_world]
  show ?thesis by simp
qed

section \<open>The Status worker reads the state once and reports it\<close>



section \<open>Missing configuration\<close>

text \<open>
  C7. When the environment lacks the encrypted instance identifier or the encrypted
  webhook URL, a worker raises \<open>ValueError\<close> (the configuration error) naming the first
  missing variable, and it has made no call before: no decryption, no EC2 call, no
  notification. This holds for the Stop and the Status worker, and for the Start worker as
  the spec describes it.
\<close>

theorem missing_configuration_is_fatal:
  assumes "environ w ''INSTANCE_ID'' = None \<or> environ w ''DISCORD_WEBHOOK_URL'' = None"
  shows "\<exists>k. k = (if environ w ''INSTANCE_ID'' = None
                  then ''INSTANCE_ID'' else ''DISCORD_WEBHOOK_URL'')
           \<and> stop_lambda_handler w = Some ([], Inl (missing_variable k))
           \<and> check_lambda_handler w = ([], Inl (missing_variable k))
           \<and> start_lambda_handler started_text start_flags w = ([], Inl (missing_variable k))"
proof -
  define k where
    "k = (if environ w ''INSTANCE_ID'' = None then ''INSTANCE_ID'' else ''DISCORD_WEBHOOK_URL'')"
  have p: "preamble w [] = ([], Inl (missing_variable k))"
    unfolding k_def missing_variable_def using assms by (rule preamble_missing)
  have "stop_lambda_handler w = Some ([], Inl (missing_variable k))"
    by (simp add: stop_lambda_handler_eq p)
  moreover have "check_lambda_handler w = ([], Inl (missing_variable k))"
    unfolding check_lambda_handler_def using p by (rule io_bind_Inl)
  moreover have "start_lambda_handler started_text start_flags w = ([], Inl (missing_variable k))"
    unfolding start_lambda_handler_def using p by (rule io_bind_Inl)
  ultimately show ?thesis using k_def by simp
qed

theorem missing_configuration_is_fatal_witness:
  "(environ unconfigured_world ''INSTANCE_ID'' = None
      \<or> environ unconfigured_world ''DISCORD_WEBHOOK_URL'' = None)
   \<and> stop_lambda_handler unconfigured_world
       = Some ([], Inl (missing_variable ''DISCORD_WEBHOOK_URL''))
   \<and> check_lambda_handler unconfigured_world
       = ([], Inl (missing_variable ''DISCORD_WEBHOOK_URL''))
   \<and> start_lambda_handler (\<lambda>instance_id. ''started '' @ instance_id) 4096
         unconfigured_world
       = ([], Inl (missing_variable ''DISCORD_WEBHOOK_URL''))"
proof -
  have h: "environ unconfigured_world ''INSTANCE_ID'' = None
             \<or> environ unconfigured_world ''DISCORD_WEBHOOK_URL'' = None"
    by (simp add: unconfigured_world_def example_world_def)
  have i: "(environ unconfigured_world ''INSTANCE_ID'' = None) = False"
    by (simp add: unconfigured_world_def example_world_def)
  show ?thesis
    using h
      missing_configuration_is_fatal
        [OF h, where started_text = "\<lambda>instance_id. ''started '' @ instance_id"
                 and start_flags = 4096]
    by (simp add: i)
qed

section \<open>The Stop worker notifies after the stop, and does nothing after that\<close>

text \<open>
  C8. Every run of the Stop worker ends. Whenever it attempts a notification, the calls it
  has made are the two decryptions, then the one stop of the instance, then the POST, and
  the POST is the last call: nothing follows it, so no further EC2 operation is made and
  the stop is not undone. When the POST fails with a \<open>RequestException\<close> the worker
  raises the \<open>RuntimeError\<close> of line 96 (the external-service error), whose message is
  \<open>Discord Webhook\<close>, the words for "sending error", a colon and the text of the
  failure; otherwise it returns \<open>"-"\<close>.
\<close>

theorem stop_notification_is_post_hoc:
  "(\<exists>t r. stop_lambda_handler w = Some (t, r)) \<and>
   (\<forall>t r url data.
      stop_lambda_handler w = Some (t, r) \<and> RequestsPost url data \<in> set t \<longrightarrow>
      (\<exists>k instance_id.
         t = k @ [Ec2StopInstances [instance_id], RequestsPost url data] \<and>
         list_all is_kms k \<and>
         r = (case requests_post w url data of
                None \<Rightarrow> Inr ''-''
              | Some e \<Rightarrow>
                  Inl (if issubclass (exn_class e) RequestException
                       then Exn RuntimeError
                              (''Discord Webhook'' @ txt_send_error @ '': '' @ exn_str e)
                       else e))))"
proof (intro conjI allI impI)
  show "\<exists>t r. stop_lambda_handler w = Some (t, r)" by (rule stop_total)
next
  fix t r url data
  assume a: "stop_lambda_handler w = Some (t, r) \<and> RequestsPost url data \<in> set t"
  then obtain k instance_id where
    p: "preamble w [] = (k, Inr (instance_id, url))"
    and t: "t = k @ [Ec2StopInstances [instance_id], RequestsPost url data]"
    and r: "r = (case requests_post w url data of
                None \<Rightarrow> Inr ''-''
              | Some e \<Rightarrow>
                  Inl (if issubclass (exn_class e) RequestException
                       then webhook_error e else e))"
    using stop_post_inv [of w t r url data] by blast
  have k: "list_all is_kms k" using p by (rule preamble_kms)
  have r': "r = (case requests_post w url data of
                None \<Rightarrow> Inr ''-''
              | Some e \<Rightarrow>
                  Inl (if issubclass (exn_class e) RequestException
                       then Exn RuntimeError
                              (''Discord Webhook'' @ txt_send_error @ '': '' @ exn_str e)
                       else e))"
    unfolding r by (simp add: webhook_error_def split: option.splits)
  show "\<exists>k instance_id.
         t = k @ [Ec2StopInstances [instance_id], RequestsPost url data] \<and>
         list_all is_kms k \<and>
         r = (case requests_post w url data of
                None \<Rightarrow> Inr ''-''
              | Some e \<Rightarrow>
                  Inl (if issubclass (exn_class e) RequestException
                       then Exn RuntimeError
                              (''Discord Webhook'' @ txt_send_error @ '': '' @ exn_str e)
                       else e))"
    by (rule exI [of _ k], rule exI [of _ instance_id], intro conjI) (fact t, fact k, fact r')
qed

theorem stop_notification_is_post_hoc_witness:
  "stop_lambda_handler failing_post_world =
     Some ([KmsDecrypt ''cipher-id'' ''fn'', KmsDecrypt ''cipher-url'' ''fn'',
            Ec2StopInstances [''i-123''],
            RequestsPost ''https://discord.example/hook'' (stop_data ''i-123'')],
           Inl (Exn RuntimeError
                  (''Discord Webhook'' @ txt_send_error @ '': Connection refused'')))
   \<and> requests_post failing_post_world ''https://discord.example/hook'' (stop_data ''i-123'')
       = Some (Exn RequestException ''Connection refused'')
   \<and> list_all is_kms [KmsDecrypt ''cipher-id'' ''fn'', KmsDecrypt ''cipher-url'' ''fn'']"
proof -
  let ?t = "[KmsDecrypt ''cipher-id'' ''fn'', KmsDecrypt ''cipher-url'' ''fn'',
             Ec2StopInstances [''i-123''],
             RequestsPost ''https://discord.example/hook'' (stop_data ''i-123'')]"
  obtain r where s: "stop_lambda_handler failing_post_world = Some (?t, r)"
    using stop_failing_post by blast
  have m: "RequestsPost ''https://discord.example/hook'' (stop_data ''i-123'') \<in> set ?t"
    by simp
  have p: "requests_post failing_post_world ''https://discord.example/hook''
             (stop_data ''i-123'') = Some (Exn RequestException ''Connection refused'')"
    by (simp add: failing_post_world_def)
  from stop_notification_is_post_hoc [of failing_post_world] s m
  obtain k instance_id where
    t: "?t = k @ [Ec2StopInstances [instance_id],
                  RequestsPost ''https://discord.example/hook'' (stop_data ''i-123'')]"
    and k: "list_all is_kms k"
    and r: "r = (case requests_post failing_post_world ''https://discord.example/hook''
                        (stop_data ''i-123'') of
                   None \<Rightarrow> Inr ''-''
                 | Some e \<Rightarrow>
                     Inl (if issubclass (exn_class e) RequestException
                          then Exn RuntimeError
                                 (''Discord Webhook'' @ txt_send_error @ '': '' @ exn_str e)
                          else e))"
    by blast
  from t have "k = [KmsDecrypt ''cipher-id'' ''fn'', KmsDecrypt ''cipher-url'' ''fn'']"
    by (simp add: append_eq_Cons_conv)
  with k have k': "list_all is_kms [KmsDecrypt ''cipher-id'' ''fn'', KmsDecrypt ''cipher-url'' ''fn'']"
    by simp
  from r p have "r = Inl (Exn RuntimeError
                  (''Discord Webhook'' @ txt_send_error @ '': Connection refused''))"
    by (simp add: issubclass_def)
  with s p k' show ?thesis by simp
qed

section \<open>The Status notification is a function of configuration and state\<close>

text \<open>
  C9. Take two invocations of the Status worker, in worlds that agree on the environment,
  on base64 decoding, on what KMS decrypts and on the answer to the first state read,
  and that may differ in everything else. Whatever the first one posts and whatever the
  second one posts are the same payload, sent to the same URL.
\<close>

theorem status_content_is_determined_by_configuration_and_state:
  assumes "environ w1 = environ w2" and "b64decode w1 = b64decode w2"
      and "kms_decrypt w1 = kms_decrypt w2"
      and "describe_instances w1 0 = describe_instances w2 0"
      and "RequestsPost u1 d1 \<in> set (fst (check_lambda_handler w1))"
      and "RequestsPost u2 d2 \<in> set (fst (check_lambda_handler w2))"
  shows "d1 = d2 \<and> u1 = u2"
proof -
  from check_post_inv [OF assms(5)] obtain t1 id1 r1 i1 where
    1: "preamble w1 [] = (t1, Inr (id1, u1))" "describe_instances w1 0 [id1] = Inr r1"
       "first_instance r1 = Inr i1" "d1 = fst (check_data id1 i1)" by blast
  from check_post_inv [OF assms(6)] obtain t2 id2 r2 i2 where
    2: "preamble w2 [] = (t2, Inr (id2, u2))" "describe_instances w2 0 [id2] = Inr r2"
       "first_instance r2 = Inr i2" "d2 = fst (check_data id2 i2)" by blast
  from preamble_determined [OF assms(1-3) 1(1) 2(1)] have c: "id1 = id2" "u1 = u2" by simp_all
  with 1(2) 2(2) assms(4) have "r1 = r2" by simp
  with 1(3) 2(3) have "i1 = i2" by simp
  with c 1(4) 2(4) show ?thesis by simp
qed

theorem status_content_is_determined_by_configuration_and_state_witness:
  "RequestsPost ''https://discord.example/hook''
        (fst (check_data ''i-123''
                \<lparr>state_name = ''running'', public_ip_address = Some ''10.0.0.5''\<rparr>))
     \<in> set (fst (check_lambda_handler running_world))
   \<and> RequestsPost ''https://discord.example/hook''
        (JObj [(''content'', JStr (txt_instance_open @ ''i-123'' @ txt_is_running
                                    @ [CHR 0x0D] @ ''10.0.0.5'')),
               (''flags'', JInt 4096)])
     \<in> set (fst (check_lambda_handler unreachable_running_world))
   \<and> fst (check_data ''i-123''
            \<lparr>state_name = ''running'', public_ip_address = Some ''10.0.0.5''\<rparr>)
     = JObj [(''content'', JStr (txt_instance_open @ ''i-123'' @ txt_is_running
                                  @ [CHR 0x0D] @ ''10.0.0.5'')),
             (''flags'', JInt 4096)]"
proof -
  have e: "environ running_world = environ unreachable_running_world"
          "b64decode running_world = b64decode unreachable_running_world"
          "kms_decrypt running_world = kms_decrypt unreachable_running_world"
          "describe_instances running_world 0 = describe_instances unreachable_running_world 0"
    by (simp_all add: unreachable_running_world_def)
  have h2: "boto3_client running_world ''ec2'' = None"
    by (simp add: running_world_def example_world_def)
  have h3: "describe_instances running_world 0 [''i-123''] =
              Inr ((\<lparr>state_name = ''running'', public_ip_address = Some ''10.0.0.5''\<rparr> # [])
                   # [])"
    by (simp add: running_world_def example_world_def)
  have m: "RequestsPost ''https://discord.example/hook''
        (fst (check_data ''i-123''
                \<lparr>state_name = ''running'', public_ip_address = Some ''10.0.0.5''\<rparr>))
     \<in> set (fst (check_lambda_handler running_world))"
    by (simp add: check_success [OF preamble_running h2 h3])
  from status_content_is_determined_by_configuration_and_state
         [OF e m check_unreachable_running] m check_unreachable_running
  show ?thesis by blast
qed

end
